theory Spec2Isabelle
  imports Complex_Main
begin

section \<open>Containers and failures\<close>

text \<open>
  The sources compute with C++ \<^verbatim>\<open>double\<close>; the embedding computes with the real
  numbers, so rounding, infinities and NaN do not appear in it.

  An Armadillo or Rcpp matrix is its two extents and its entries. Entries outside the
  extents are never read by the operations below. Extents and indices are natural
  numbers; the embedding does not cover extents beyond the range of a C++ \<^verbatim>\<open>int\<close>.
\<close>

record amat =
  n_rows :: nat
  n_cols :: nat
  entry :: "nat \<Rightarrow> nat \<Rightarrow> real"

text \<open>
  The ways a call ends without a result:
  \<^item> \<open>Runtime_error\<close>: \<^verbatim>\<open>std::runtime_error\<close>, thrown by \<^verbatim>\<open>arma::chol\<close> when the
    factorisation fails;
  \<^item> \<open>Logic_error\<close>: \<^verbatim>\<open>std::logic_error\<close>, thrown by Armadillo's checks of indices and
    sizes;
  \<^item> \<open>Index_out_of_bounds\<close>: thrown by \<^verbatim>\<open>Rcpp::NumericMatrix::row\<close>;
  \<^item> \<open>Undefined_access\<close>: an unchecked read or write outside a buffer (iterator
    arithmetic, \<^verbatim>\<open>operator[]\<close> of an Rcpp vector); the C++ has no defined result there.
\<close>

datatype error = Runtime_error | Logic_error | Index_out_of_bounds | Undefined_access

definition mat_row :: "amat \<Rightarrow> nat \<Rightarrow> real list" where
  "mat_row M r = map (entry M r) [0..<n_cols M]"

definition mat_col :: "amat \<Rightarrow> nat \<Rightarrow> real list" where
  "mat_col M c = map (\<lambda>r. entry M r c) [0..<n_rows M]"

definition transpose_mat :: "amat \<Rightarrow> amat" where
  "transpose_mat M = \<lparr>n_rows = n_cols M, n_cols = n_rows M, entry = (\<lambda>r c. entry M c r)\<rparr>"

text \<open>\<^verbatim>\<open>std::copy\<close> of a buffer into the memory of an \<open>r\<close> by \<open>c\<close> matrix: Armadillo
  stores a matrix column by column.\<close>

definition mat_of_colmajor :: "nat \<Rightarrow> nat \<Rightarrow> real list \<Rightarrow> amat" where
  "mat_of_colmajor r c buf = \<lparr>n_rows = r, n_cols = c, entry = (\<lambda>i k. buf ! (k * r + i))\<rparr>"

text \<open>\<^verbatim>\<open>arma::symmatu\<close>: the upper triangle reflected into the lower one.\<close>

definition symmatu :: "amat \<Rightarrow> amat" where
  "symmatu M = M\<lparr>entry := (\<lambda>r c. if r \<le> c then entry M r c else entry M c r)\<rparr>"

text \<open>Matrix times column vector.\<close>

definition mat_vec :: "amat \<Rightarrow> real list \<Rightarrow> real list" where
  "mat_vec M v = map (\<lambda>r. sum_list (map (\<lambda>k. entry M r k * v ! k) [0..<n_cols M])) [0..<n_rows M]"

text \<open>The sum of two vectors, which have the same length wherever the model adds them.\<close>

definition vec_add :: "real list \<Rightarrow> real list \<Rightarrow> real list" where
  "vec_add u v = map (\<lambda>i. u ! i + v ! i) [0..<length u]"

text \<open>\<^verbatim>\<open>v.elem(arma::find(v < 0)).zeros()\<close>: every negative component becomes 0, and every
  other component stays. In the source's doubles the comparison is also false for a NaN,
  which therefore stays; the reals of the embedding have no such value, so what is proved
  of a clamped vector below is that no component of it is negative.\<close>

definition clamp_neg :: "real list \<Rightarrow> real list" where
  "clamp_neg v = map (\<lambda>x. if x < 0 then 0 else x) v"

text \<open>\<^verbatim>\<open>M(arma::span(1, n), c) = v\<close>: rows 1 to \<open>n\<close> of column \<open>c\<close> receive \<open>v\<close>.\<close>

definition set_col_span :: "amat \<Rightarrow> nat \<Rightarrow> nat \<Rightarrow> real list \<Rightarrow> amat" where
  "set_col_span M n c v =
     M\<lparr>entry := (\<lambda>i k. if k = c \<and> 1 \<le> i \<and> i \<le> n then v ! (i - 1) else entry M i k)\<rparr>"

text \<open>\<^verbatim>\<open>std::copy(src.begin(), src.end(), dst.begin() + off)\<close>.\<close>

definition copy_into :: "real list \<Rightarrow> nat \<Rightarrow> real list \<Rightarrow> real list" where
  "copy_into src off dst = take off dst @ src @ drop (off + length src) dst"

section \<open>The integrator and its parameter state\<close>

text \<open>
  Modelled from the spec: the macros \<^verbatim>\<open>CALL_SET_LNA_PARAMS\<close> and
  \<^verbatim>\<open>CALL_INTEGRATE_STEM_LNA\<close> of \<^verbatim>\<open>stemr_utils.h\<close>, which is not among the sources. The
  integration service holds a parameter vector of its own; \<^verbatim>\<open>CALL_SET_LNA_PARAMS\<close>
  replaces it, and \<^verbatim>\<open>CALL_INTEGRATE_STEM_LNA\<close> advances a buffer of fixed size in place
  under it, deterministically. The model keeps that vector in \<open>ode_pars\<close> and records
  every vector pushed, in order, in \<open>set_pars_log\<close>.

  The integrator itself is a parameter \<open>integ\<close> of the model: \<open>integ p buf t_L t_R tol i\<close>
  is component \<open>i\<close> of the buffer after integrating from \<open>t_L\<close> to \<open>t_R\<close> with
  parameters \<open>p\<close> and tolerance \<open>tol\<close>, started from \<open>buf\<close>.
\<close>

record ode_env =
  ode_pars :: "real list"
  set_pars_log :: "real list list"

type_synonym integrator = "real list \<Rightarrow> real list \<Rightarrow> real \<Rightarrow> real \<Rightarrow> real \<Rightarrow> nat \<Rightarrow> real"

definition CALL_SET_LNA_PARAMS :: "real list \<Rightarrow> 'a ode_env_scheme \<Rightarrow> 'a ode_env_scheme" where
  "CALL_SET_LNA_PARAMS p s = s\<lparr>ode_pars := p, set_pars_log := set_pars_log s @ [p]\<rparr>"

definition CALL_INTEGRATE_STEM_LNA ::
  "integrator \<Rightarrow> real list \<Rightarrow> real list \<Rightarrow> real \<Rightarrow> real \<Rightarrow> real \<Rightarrow> real list" where
  "CALL_INTEGRATE_STEM_LNA integ p buf t_L t_R tol = map (integ p buf t_L t_R tol) [0..<length buf]"

text \<open>The locals that both \<^verbatim>\<open>propose_lna\<close> and \<^verbatim>\<open>lna_density2\<close> declare under the
  same names, on top of the integrator's parameter state.\<close>

record lna_locals = ode_env +
  current_params :: "real list"
  lna_state_vec :: "real list"
  lna_path :: amat

text \<open>\<^verbatim>\<open>forward_exception_to_r\<close> of Rcpp raises the R condition of the exception it is
  given; control does not come back to the C++ that called it.\<close>

definition forward_exception_to_r :: "error \<Rightarrow> error + 'a" where
  "forward_exception_to_r err = Inl err"

text \<open>A \<^verbatim>\<open>for\<close> loop over the indices \<open>js\<close>, left at the first failure.\<close>

fun for_loop :: "(nat \<Rightarrow> 's \<Rightarrow> error + 's) \<Rightarrow> nat list \<Rightarrow> 's \<Rightarrow> error + 's" where
  "for_loop body [] s = Inr s"
| "for_loop body (j # js) s =
     (case body j s of Inl e \<Rightarrow> Inl e | Inr s' \<Rightarrow> for_loop body js s')"

section \<open>pars2lnapars\<close>

text \<open>
  \<^verbatim>\<open>lnapars.cols(0, n_pars-1).each_row() = parameters\<close>. The bounds of \<^verbatim>\<open>cols\<close> are
  unsigned: with \<open>n_pars = 0\<close> the upper bound \<open>n_pars - 1\<close> wraps to the largest word,
  and \<^verbatim>\<open>cols\<close> throws as it does for any upper bound not below the column count. The
  result is the matrix after the call.
\<close>

definition pars2lnapars :: "amat \<Rightarrow> real list \<Rightarrow> error + amat" where
  "pars2lnapars lnapars parameters =
     (let n_pars = length parameters in
      if n_pars = 0 \<or> n_cols lnapars \<le> n_pars - 1 then Inl Logic_error
      else Inr (lnapars\<lparr>entry :=
             (\<lambda>r c. if r < n_rows lnapars \<and> c < n_pars then parameters ! c else entry lnapars r c)\<rparr>))"

section \<open>propose\_lna\<close>

text \<open>
  The other local variables of \<^verbatim>\<open>propose_lna\<close>. \<open>lna_path\<close> is the \<open>n_events + 1\<close> by
  \<open>n_times\<close> matrix of the source (one column per time point); the function returns its
  transpose. \<open>init_state\<close> and \<open>draws\<close> are set before the loop and only read in it.
\<close>

record proposer_state = lna_locals +
  init_state :: "real list"
  init_volumes :: "real list"
  lna_drift :: "real list"
  lna_diffusion :: amat
  log_lna :: "real list"
  nat_lna :: "real list"
  c_incid :: "real list"
  draws :: amat

record proposal =
  proposal_draws :: amat
  proposal_lna_path :: amat

text \<open>
  Besides the arguments of the source (\<open>lna_times\<close>, \<open>lna_pars\<close>, \<open>init_start\<close>,
  \<open>param_update_inds\<close>, \<open>stoich_matrix\<close>, and \<open>integ\<close> for \<^verbatim>\<open>lna_pointer\<close>), the model
  takes what the source draws on from outside:
  \<^item> \<open>chol\<close>: \<^verbatim>\<open>arma::chol(_, "lower")\<close>, \<open>None\<close> when it throws;
  \<^item> \<open>randn\<close>: the standard-normal generator, \<open>randn r c\<close> being the value it puts at row
    \<open>r\<close>, column \<open>c\<close> of \<open>draws\<close>.
  An update flag is a \<open>bool\<close>: the source tests the \<^verbatim>\<open>int\<close> of the logical vector, so
  that \<^verbatim>\<open>NA\<close> counts as set. One pass of the loop, for \<open>j\<close> from 0, is written in three
  parts.
\<close>

text \<open>Lines 74 to 86: the state vector is reset and integrated over the interval, then
  split into the drift vector and the symmetrised diffusion matrix.\<close>

definition integrate_interval ::
  "integrator \<Rightarrow> real list \<Rightarrow> amat \<Rightarrow> nat \<Rightarrow> proposer_state \<Rightarrow> proposer_state" where
  "integrate_interval integ lna_times stoich_matrix j s =
     (let n_events = n_cols stoich_matrix;
          t_L = lna_times ! j;
          t_R = lna_times ! (j + 1);
          s1 = s\<lparr>lna_state_vec := CALL_INTEGRATE_STEM_LNA integ (ode_pars s)
                  (replicate (length (lna_state_vec s)) 0) t_L t_R (1 / 1000)\<rparr>
      in s1\<lparr>lna_drift := take n_events (lna_state_vec s1),
             lna_diffusion := symmatu (mat_of_colmajor n_events n_events
                                 (drop n_events (lna_state_vec s1)))\<rparr>)"

text \<open>Lines 90 to 100, given the Cholesky factor \<open>L\<close>: the log-scale increment, the
  clamped natural-scale increment, the cumulative incidence.\<close>

definition map_perturbation :: "amat \<Rightarrow> nat \<Rightarrow> proposer_state \<Rightarrow> proposer_state" where
  "map_perturbation L j s =
     (let s3 = s\<lparr>log_lna := vec_add (lna_drift s) (mat_vec L (mat_col (draws s) j))\<rparr>;
          s4 = s3\<lparr>nat_lna := clamp_neg (map (\<lambda>x. exp x - 1) (log_lna s3))\<rparr>
      in s4\<lparr>c_incid := vec_add (c_incid s4) (nat_lna s4)\<rparr>)"

text \<open>Lines 101 to 116: the path column, the compartment volumes, the parameters.\<close>

definition feed_back ::
  "amat \<Rightarrow> int \<Rightarrow> bool list \<Rightarrow> amat \<Rightarrow> nat \<Rightarrow> proposer_state \<Rightarrow> error + proposer_state" where
  "feed_back lna_pars init_start param_update_inds stoich_matrix j s =
     (let n_events = n_cols stoich_matrix;
          n_comps = n_rows stoich_matrix
      in if n_events < 1 then Inl Logic_error
         else
           let s6 = s\<lparr>lna_path := set_col_span (lna_path s) n_events (j + 1) (c_incid s)\<rparr>;
               s7 = s6\<lparr>init_volumes :=
                       clamp_neg (vec_add (init_state s6) (mat_vec stoich_matrix (c_incid s6)))\<rparr>
           in if length param_update_inds \<le> j + 1 then Inl Undefined_access
              else if param_update_inds ! (j + 1) \<and> n_rows lna_pars \<le> j + 1
                then Inl Index_out_of_bounds
              else
                let s8 = (if param_update_inds ! (j + 1)
                          then s7\<lparr>current_params := mat_row lna_pars (j + 1)\<rparr> else s7)
                in if init_start < 0 \<or> length (current_params s8) < nat init_start + n_comps
                     then Inl Undefined_access
                   else
                     let s9 = s8\<lparr>current_params :=
                                copy_into (init_volumes s8) (nat init_start) (current_params s8)\<rparr>
                     in Inr (CALL_SET_LNA_PARAMS (current_params s9) s9))"

definition propose_lna_interval ::
  "integrator \<Rightarrow> (amat \<Rightarrow> amat option) \<Rightarrow> real list \<Rightarrow> amat \<Rightarrow> int \<Rightarrow> bool list \<Rightarrow> amat
     \<Rightarrow> nat \<Rightarrow> proposer_state \<Rightarrow> error + proposer_state" where
  "propose_lna_interval integ chol lna_times lna_pars init_start param_update_inds stoich_matrix j s =
     (let n_events = n_cols stoich_matrix;
          s2 = integrate_interval integ lna_times stoich_matrix j s
      in case chol (lna_diffusion s2) of
           None \<Rightarrow> forward_exception_to_r Runtime_error
         | Some L \<Rightarrow>
             if n_cols L \<noteq> n_events \<or> n_rows L \<noteq> n_events then Inl Logic_error
             else feed_back lna_pars init_start param_update_inds stoich_matrix j
                    (map_perturbation L j s2))"

text \<open>
  Everything \<^verbatim>\<open>propose_lna\<close> does before its loop; the result is the state at the loop's
  entry. With no time point the column count \<open>n_times - 1\<close> of \<open>draws\<close> wraps around as
  an unsigned word, and no matrix of that extent is handed back.
\<close>

definition propose_lna_init ::
  "(nat \<Rightarrow> nat \<Rightarrow> real) \<Rightarrow> real list \<Rightarrow> amat \<Rightarrow> int \<Rightarrow> amat \<Rightarrow> error + proposer_state" where
  "propose_lna_init randn lna_times lna_pars init_start stoich_matrix =
     (let n_events = n_cols stoich_matrix;
          n_comps = n_rows stoich_matrix;
          n_odes = n_events + n_events * n_events;
          n_times = length lna_times
      in if n_rows lna_pars = 0 then Inl Index_out_of_bounds
         else
           let current_params = mat_row lna_pars 0 in
           if init_start < 0 \<or> length current_params < nat init_start + n_comps
             then Inl Undefined_access
           else
             let init_state = take n_comps (drop (nat init_start) current_params) in
             if n_times = 0 then Inl Logic_error
             else
               Inr (CALL_SET_LNA_PARAMS current_params
                     \<lparr>ode_pars = [], set_pars_log = [],
                      current_params = current_params,
                      lna_state_vec = replicate n_odes 0,
                      lna_path = \<lparr>n_rows = n_events + 1, n_cols = n_times,
                                  entry = (\<lambda>r c. if r = 0 then lna_times ! c else 0)\<rparr>,
                      init_state = init_state,
                      init_volumes = init_state,
                      lna_drift = replicate n_events 0,
                      lna_diffusion = \<lparr>n_rows = n_events, n_cols = n_events, entry = (\<lambda>_ _. 0)\<rparr>,
                      log_lna = replicate n_events 0,
                      nat_lna = replicate n_events 0,
                      c_incid = replicate n_events 0,
                      draws = \<lparr>n_rows = n_events, n_cols = n_times - 1, entry = randn\<rparr>\<rparr>))"

text \<open>The state after the first \<open>k\<close> passes of the loop.\<close>

definition propose_lna_upto ::
  "integrator \<Rightarrow> (amat \<Rightarrow> amat option) \<Rightarrow> (nat \<Rightarrow> nat \<Rightarrow> real) \<Rightarrow> real list \<Rightarrow> amat \<Rightarrow> int
     \<Rightarrow> bool list \<Rightarrow> amat \<Rightarrow> nat \<Rightarrow> error + proposer_state" where
  "propose_lna_upto integ chol randn lna_times lna_pars init_start param_update_inds stoich_matrix k =
     (case propose_lna_init randn lna_times lna_pars init_start stoich_matrix of
        Inl e \<Rightarrow> Inl e
      | Inr s0 \<Rightarrow>
          for_loop (propose_lna_interval integ chol lna_times lna_pars init_start param_update_inds
                      stoich_matrix) [0..<k] s0)"

definition propose_lna ::
  "integrator \<Rightarrow> (amat \<Rightarrow> amat option) \<Rightarrow> (nat \<Rightarrow> nat \<Rightarrow> real) \<Rightarrow> real list \<Rightarrow> amat \<Rightarrow> int
     \<Rightarrow> bool list \<Rightarrow> amat \<Rightarrow> error + proposal" where
  "propose_lna integ chol randn lna_times lna_pars init_start param_update_inds stoich_matrix =
     (case propose_lna_upto integ chol randn lna_times lna_pars init_start param_update_inds
             stoich_matrix (length lna_times - 1) of
        Inl e \<Rightarrow> Inl e
      | Inr s \<Rightarrow> Inr \<lparr>proposal_draws = draws s, proposal_lna_path = transpose_mat (lna_path s)\<rparr>)"

section \<open>lna\_density2\<close>

text \<open>
  The list \<^verbatim>\<open>path\<close> handed to \<^verbatim>\<open>lna_density2\<close>, one field per name the source reads
  from it (\<^verbatim>\<open>path["lna_path"]\<close> is \<open>path_lna_path\<close>, and so on). The cube
  \<^verbatim>\<open>diffusion\<close> is the list of its slices. The returned list has the same names and
  \<^verbatim>\<open>lna_log_lik\<close>.
\<close>

record path_bundle =
  path_lna_path :: amat
  path_res_path :: amat
  path_drift :: amat
  path_residual :: amat
  path_diffusion :: "amat list"
  path_data_log_lik :: real

record density_result = path_bundle +
  path_lna_log_lik :: real

record evaluator_state = lna_locals +
  res_vec :: "real list"
  residual_process :: amat
  lna_log_lik :: real

text \<open>\<^verbatim>\<open>M(j, arma::span(1, n))\<close>: columns 1 to \<open>n\<close> of row \<open>j\<close>.\<close>

definition row_span :: "amat \<Rightarrow> nat \<Rightarrow> nat \<Rightarrow> real list" where
  "row_span M j n = map (entry M j) [1..<n + 1]"

text \<open>\<^verbatim>\<open>M.row(j) = v\<close>.\<close>

definition set_row :: "amat \<Rightarrow> nat \<Rightarrow> real list \<Rightarrow> amat" where
  "set_row M j v = M\<lparr>entry := (\<lambda>r c. if r = j \<and> c < n_cols M then v ! c else entry M r c)\<rparr>"

text \<open>
  One pass of the loop of \<^verbatim>\<open>lna_density2\<close>, for \<open>j\<close> from 1. Beyond the arguments of the
  source, \<open>dmvtn x mu sigma\<close> stands for \<^verbatim>\<open>dmvtn(x, mu, sigma, true)[0]\<close>, the log-density
  helper declared in \<^verbatim>\<open>stemr_utils.h\<close>.
\<close>

definition lna_density2_interval ::
  "integrator \<Rightarrow> (real list \<Rightarrow> real list \<Rightarrow> amat \<Rightarrow> real) \<Rightarrow> path_bundle \<Rightarrow> real list \<Rightarrow> amat
     \<Rightarrow> bool list \<Rightarrow> amat \<Rightarrow> nat \<Rightarrow> evaluator_state \<Rightarrow> error + evaluator_state" where
  "lna_density2_interval integ dmvtn path lna_times lna_pars param_update_inds flow_matrix j s =
     (let n_comps = n_rows flow_matrix;
          residual_path = path_res_path path;
          diffusion_process = path_diffusion path;
          resid_start = n_comps;
          t_L = lna_times ! (j - 1);
          t_R = lna_times ! j
      in if length param_update_inds \<le> j - 1 then Inl Undefined_access
         else if param_update_inds ! (j - 1) \<and> n_rows lna_pars \<le> j - 1 then Inl Index_out_of_bounds
         else
           let s1 = (if param_update_inds ! (j - 1)
                     then CALL_SET_LNA_PARAMS (mat_row lna_pars (j - 1))
                            (s\<lparr>current_params := mat_row lna_pars (j - 1)\<rparr>)
                     else s);
               s2 = s1\<lparr>lna_state_vec :=
                        CALL_INTEGRATE_STEM_LNA integ (ode_pars s1) (lna_state_vec s1) t_L t_R 1\<rparr>
           in if n_comps = 0 \<or> n_rows (residual_process s2) \<le> j
                 \<or> n_cols (residual_process s2) \<noteq> n_comps then Inl Logic_error
              else
                let s3 = s2\<lparr>residual_process :=
                           set_row (residual_process s2) j (take n_comps (drop resid_start (lna_state_vec s2)))\<rparr>
                in if n_rows residual_path \<le> j \<or> n_cols residual_path \<le> n_comps
                      \<or> length diffusion_process \<le> j then Inl Logic_error
                   else
                     let s4 = s3\<lparr>lna_log_lik := lna_log_lik s3
                                  + dmvtn (row_span residual_path j n_comps)
                                      (mat_row (residual_process s3) j)
                                      (diffusion_process ! j)\<rparr>;
                         s5 = s4\<lparr>res_vec := row_span residual_path j n_comps\<rparr>
                     in Inr (s5\<lparr>lna_state_vec := copy_into (res_vec s5) resid_start (lna_state_vec s5)\<rparr>))"

definition lna_density2_init :: "path_bundle \<Rightarrow> amat \<Rightarrow> amat \<Rightarrow> error + evaluator_state" where
  "lna_density2_init path lna_pars flow_matrix =
     (let n_comps = n_rows flow_matrix;
          n_odes = 2 * n_comps
      in if n_rows lna_pars = 0 then Inl Index_out_of_bounds
         else
           Inr ((CALL_SET_LNA_PARAMS (mat_row lna_pars 0)
                  \<lparr>ode_pars = [], set_pars_log = [],
                   current_params = mat_row lna_pars 0,
                   lna_state_vec = replicate n_odes 0,
                   lna_path = path_lna_path path,
                   res_vec = replicate n_comps 0,
                   residual_process = path_residual path,
                   lna_log_lik = 0\<rparr>)))"

text \<open>The state after the passes \<open>j = 1, \<dots>, k\<close> of the loop.\<close>

definition lna_density2_upto ::
  "integrator \<Rightarrow> (real list \<Rightarrow> real list \<Rightarrow> amat \<Rightarrow> real) \<Rightarrow> path_bundle \<Rightarrow> real list \<Rightarrow> amat
     \<Rightarrow> bool list \<Rightarrow> amat \<Rightarrow> nat \<Rightarrow> error + evaluator_state" where
  "lna_density2_upto integ dmvtn path lna_times lna_pars param_update_inds flow_matrix k =
     (case lna_density2_init path lna_pars flow_matrix of
        Inl e \<Rightarrow> Inl e
      | Inr s0 \<Rightarrow>
          for_loop (lna_density2_interval integ dmvtn path lna_times lna_pars param_update_inds
                      flow_matrix) [1..<k + 1] s0)"

definition lna_density2 ::
  "integrator \<Rightarrow> (real list \<Rightarrow> real list \<Rightarrow> amat \<Rightarrow> real) \<Rightarrow> path_bundle \<Rightarrow> real list \<Rightarrow> amat
     \<Rightarrow> bool list \<Rightarrow> amat \<Rightarrow> error + density_result" where
  "lna_density2 integ dmvtn path lna_times lna_pars param_update_inds flow_matrix =
     (case lna_density2_upto integ dmvtn path lna_times lna_pars param_update_inds flow_matrix
             (length lna_times - 1) of
        Inl e \<Rightarrow> Inl e
      | Inr s \<Rightarrow>
          Inr \<lparr>path_lna_path = lna_path s,
               path_res_path = path_res_path path,
               path_drift = path_drift path,
               path_residual = residual_process s,
               path_diffusion = path_diffusion path,
               path_data_log_lik = path_data_log_lik path,
               path_lna_log_lik = lna_log_lik s\<rparr>)"

section \<open>Auxiliary definitions\<close>

text \<open>What holds of the locals of \<^verbatim>\<open>propose_lna\<close> after \<open>k\<close> passes of its loop.\<close>

definition proposer_inv ::
  "(nat \<Rightarrow> nat \<Rightarrow> real) \<Rightarrow> real list \<Rightarrow> amat \<Rightarrow> int \<Rightarrow> amat \<Rightarrow> nat \<Rightarrow> proposer_state \<Rightarrow> bool" where
  "proposer_inv randn ts pars i0 S k s \<longleftrightarrow>
     length (lna_state_vec s) = n_cols S + n_cols S * n_cols S
   \<and> length (c_incid s) = n_cols S
   \<and> init_state s = take (n_rows S) (drop (nat i0) (mat_row pars 0))
   \<and> draws s = \<lparr>n_rows = n_cols S, n_cols = length ts - 1, entry = randn\<rparr>
   \<and> length (current_params s) = n_cols pars
   \<and> 0 \<le> i0 \<and> nat i0 + n_rows S \<le> n_cols pars
   \<and> n_rows (lna_path s) = n_cols S + 1 \<and> n_cols (lna_path s) = length ts
   \<and> ode_pars s = current_params s
   \<and> length (set_pars_log s) = k + 1
   \<and> last (set_pars_log s) = current_params s
   \<and> take (n_rows S) (drop (nat i0) (current_params s)) = init_volumes s
   \<and> (\<forall>e. 1 \<le> e \<and> e \<le> n_cols S \<longrightarrow> entry (lna_path s) e k = c_incid s ! (e - 1))
   \<and> (\<forall>c. entry (lna_path s) 0 c = ts ! c)"


text \<open>What holds of the locals of \<^verbatim>\<open>lna_density2\<close> after the passes \<open>1, \<dots>, k\<close> of its
  loop: the state vector keeps its size, the residual process keeps its extents and
  differs from the supplied one in rows 1 to \<open>k\<close> only, and the running log-likelihood is
  the sum of the densities of the rows done.\<close>

definition evaluator_inv ::
  "(real list \<Rightarrow> real list \<Rightarrow> amat \<Rightarrow> real) \<Rightarrow> path_bundle \<Rightarrow> amat \<Rightarrow> nat \<Rightarrow> evaluator_state \<Rightarrow> bool" where
  "evaluator_inv dmvtn path F k s \<longleftrightarrow>
     length (lna_state_vec s) = 2 * n_rows F
   \<and> n_rows (residual_process s) = n_rows (path_residual path)
   \<and> n_cols (residual_process s) = n_cols (path_residual path)
   \<and> (\<forall>r c. r = 0 \<or> k < r \<or> n_cols (path_residual path) \<le> c \<longrightarrow>
          entry (residual_process s) r c = entry (path_residual path) r c)
   \<and> lna_path s = path_lna_path path
   \<and> lna_log_lik s =
       sum_list (map (\<lambda>j. dmvtn (row_span (path_res_path path) j (n_rows F))
                            (mat_row (residual_process s) j) (path_diffusion path ! j)) [1..<k + 1])"

text \<open>
  What \<^verbatim>\<open>arma::chol\<close> does with a matrix whose leading entry is not positive: it hands the
  matrix to LAPACK's \<^verbatim>\<open>potrf\<close>, which stops at the first pivot that is not positive, and
  throws. The zero matrix is such a matrix.
\<close>

definition chol_refuses_nonpositive_pivot :: "(amat \<Rightarrow> amat option) \<Rightarrow> bool" where
  "chol_refuses_nonpositive_pivot chol \<longleftrightarrow>
     (\<forall>A. 0 < n_rows A \<and> entry A 0 0 \<le> 0 \<longrightarrow> chol A = None)"

section \<open>Example inputs\<close>

text \<open>A parameter table with two rows and three columns: row \<open>r\<close> is \<open>10r, 10r + 1, 10r + 2\<close>.\<close>

definition example_table :: amat where
  "example_table = \<lparr>n_rows = 2, n_cols = 3, entry = (\<lambda>r c. real (10 * r + c))\<rparr>"

text \<open>
  A model with two compartments and one event, which moves one unit from the first
  compartment to the second. The parameter rows hold a rate and the two compartment
  volumes, so the volumes start at column 1; row \<open>r\<close> is \<open>1/2, 10 + 100r, 1\<close>.
\<close>

definition example_stoich :: amat where
  "example_stoich = \<lparr>n_rows = 2, n_cols = 1, entry = (\<lambda>r c. if r = 0 then - 1 else 1)\<rparr>"

definition example_pars :: amat where
  "example_pars = \<lparr>n_rows = 3, n_cols = 3,
     entry = (\<lambda>r c. if c = 0 then 1 / 2 else if c = 1 then 10 + 100 * real r else 1)\<rparr>"

definition example_times :: "real list" where
  "example_times = [0, 1, 2]"

text \<open>An integrator that returns drift 0 and diffusion 1 over every interval, and one that
  returns a negative diffusion.\<close>

definition example_integ :: integrator where
  "example_integ p buf t_L t_R tol i = (if i = 0 then 0 else 1)"

definition example_integ_neg :: integrator where
  "example_integ_neg p buf t_L t_R tol i = (if i = 0 then 0 else - 1)"

text \<open>The Cholesky factor of a 1 by 1 matrix, refused unless the entry is positive.\<close>

definition example_chol :: "amat \<Rightarrow> amat option" where
  "example_chol A =
     (if n_rows A = 1 \<and> n_cols A = 1 \<and> 0 < entry A 0 0
      then Some \<lparr>n_rows = 1, n_cols = 1, entry = (\<lambda>r c. sqrt (entry A 0 0))\<rparr>
      else None)"

text \<open>Draws that are 1 over the first interval and \<open>-1\<close> afterwards.\<close>

definition example_randn :: "nat \<Rightarrow> nat \<Rightarrow> real" where
  "example_randn r c = (if c = 0 then 1 else - 1)"

text \<open>An integrator that returns zero drift and zero diffusion.\<close>

definition example_integ_zero :: integrator where
  "example_integ_zero p buf t_L t_R tol i = 0"

text \<open>A parameter table whose rows are \<open>1/2, -1, 1\<close>: the first compartment volume
  supplied is negative.\<close>

definition example_pars_neg :: amat where
  "example_pars_neg = \<lparr>n_rows = 3, n_cols = 3,
     entry = (\<lambda>r c. if c = 0 then 1 / 2 else if c = 1 then - 1 else 1)\<rparr>"

text \<open>
  A path bundle over the three time points for two compartments: the residual path holds
  the time in column 0 and \<open>10r + c\<close> at row \<open>r\<close>, column \<open>c\<close>; the supplied residual
  process holds 100 everywhere; every diffusion slice is the identity.
\<close>

definition example_flow :: amat where
  "example_flow = \<lparr>n_rows = 2, n_cols = 2, entry = (\<lambda>r c. if r = c then 1 else 0)\<rparr>"

definition example_path :: path_bundle where
  "example_path =
     \<lparr>path_lna_path = \<lparr>n_rows = 3, n_cols = 3, entry = (\<lambda>r c. real r)\<rparr>,
      path_res_path = \<lparr>n_rows = 3, n_cols = 3,
                        entry = (\<lambda>r c. if c = 0 then real r else real (10 * r + c))\<rparr>,
      path_drift = \<lparr>n_rows = 3, n_cols = 2, entry = (\<lambda>r c. 0)\<rparr>,
      path_residual = \<lparr>n_rows = 3, n_cols = 2, entry = (\<lambda>r c. 100)\<rparr>,
      path_diffusion = [example_flow, example_flow, example_flow],
      path_data_log_lik = - 5\<rparr>"

text \<open>An integrator that advances every component by 1, and a stand-in for the
  log-density: minus half the squared distance of the point from the mean.\<close>

definition example_integ_ess :: integrator where
  "example_integ_ess p buf t_L t_R tol i = buf ! i + 1"

definition example_dmvtn :: "real list \<Rightarrow> real list \<Rightarrow> amat \<Rightarrow> real" where
  "example_dmvtn x mu sigma = - sum_list (map (\<lambda>i. (x ! i - mu ! i)\<^sup>2) [0..<length x]) / 2"

section \<open>Lemmas on propose\_lna\<close>

lemma for_loop_append:
  "for_loop body (xs @ ys) s =
     (case for_loop body xs s of Inl e \<Rightarrow> Inl e | Inr s' \<Rightarrow> for_loop body ys s')"
  by (induction xs arbitrary: s) (auto split: sum.splits)

lemma propose_lna_upto_Suc:
  "propose_lna_upto integ chol randn lna_times lna_pars init_start param_update_inds stoich_matrix (Suc k) =
     (case propose_lna_upto integ chol randn lna_times lna_pars init_start param_update_inds stoich_matrix k of
        Inl e \<Rightarrow> Inl e
      | Inr s \<Rightarrow> propose_lna_interval integ chol lna_times lna_pars init_start param_update_inds
                   stoich_matrix k s)"
  by (simp add: propose_lna_upto_def for_loop_append split: sum.splits)

lemma propose_lna_upto_0:
  "propose_lna_upto integ chol randn lna_times lna_pars init_start param_update_inds stoich_matrix 0 =
     propose_lna_init randn lna_times lna_pars init_start stoich_matrix"
  by (simp add: propose_lna_upto_def split: sum.splits)

lemma feed_back_Inr:
  assumes "feed_back lna_pars init_start param_update_inds stoich_matrix j s = Inr s'"
  shows "1 \<le> n_cols stoich_matrix"
    and "j + 1 < length param_update_inds"
    and "param_update_inds ! (j + 1) \<Longrightarrow> j + 1 < n_rows lna_pars"
    and "0 \<le> init_start"
    and "nat init_start + n_rows stoich_matrix
           \<le> length (if param_update_inds ! (j + 1) then mat_row lna_pars (j + 1) else current_params s)"
    and "s' = (let cp = copy_into (clamp_neg (vec_add (init_state s) (mat_vec stoich_matrix (c_incid s))))
                       (nat init_start)
                       (if param_update_inds ! (j + 1) then mat_row lna_pars (j + 1) else current_params s)
               in s\<lparr>lna_path := set_col_span (lna_path s) (n_cols stoich_matrix) (j + 1) (c_incid s),
                    init_volumes := clamp_neg (vec_add (init_state s) (mat_vec stoich_matrix (c_incid s))),
                    current_params := cp, ode_pars := cp, set_pars_log := set_pars_log s @ [cp]\<rparr>)"
proof -
  note d = feed_back_def Let_def CALL_SET_LNA_PARAMS_def
  show c2: "1 \<le> n_cols stoich_matrix"
    using assms by (simp add: d split: if_splits)
  show c3: "j + 1 < length param_update_inds"
    using assms c2 by (simp add: d split: if_splits)
  show c4: "param_update_inds ! (j + 1) \<Longrightarrow> j + 1 < n_rows lna_pars"
  proof (rule ccontr)
    assume "param_update_inds ! (j + 1)" and "\<not> j + 1 < n_rows lna_pars"
    then show False using assms c2 c3 by (simp add: d)
  qed
  have c5: "0 \<le> init_start \<and> nat init_start + n_rows stoich_matrix
           \<le> length (if param_update_inds ! (j + 1) then mat_row lna_pars (j + 1) else current_params s)"
  proof (rule ccontr)
    assume "\<not> ?thesis"
    then show False using assms c2 c3 c4
      by (cases "param_update_inds ! (j + 1)") (simp_all add: d not_le split: if_splits)
  qed
  show "0 \<le> init_start" using c5 by simp
  show "nat init_start + n_rows stoich_matrix
           \<le> length (if param_update_inds ! (j + 1) then mat_row lna_pars (j + 1) else current_params s)"
    using c5 by simp
  have eq: "Inr s' = feed_back lna_pars init_start param_update_inds stoich_matrix j s"
    using assms by simp
  show "s' = (let cp = copy_into (clamp_neg (vec_add (init_state s) (mat_vec stoich_matrix (c_incid s))))
                       (nat init_start)
                       (if param_update_inds ! (j + 1) then mat_row lna_pars (j + 1) else current_params s)
               in s\<lparr>lna_path := set_col_span (lna_path s) (n_cols stoich_matrix) (j + 1) (c_incid s),
                    init_volumes := clamp_neg (vec_add (init_state s) (mat_vec stoich_matrix (c_incid s))),
                    current_params := cp, ode_pars := cp, set_pars_log := set_pars_log s @ [cp]\<rparr>)"
  proof (cases "param_update_inds ! (j + 1)")
    case True
    then show ?thesis using eq c2 c3 c4 c5 unfolding d by simp
  next
    case False
    then show ?thesis using eq c2 c3 c4 c5 unfolding d by simp
  qed
qed

lemma propose_lna_interval_Inr:
  assumes "propose_lna_interval integ chol lna_times lna_pars init_start param_update_inds stoich_matrix j s = Inr s'"
  shows "\<exists>L. chol (lna_diffusion s') = Some L
           \<and> n_rows L = n_cols stoich_matrix \<and> n_cols L = n_cols stoich_matrix
           \<and> log_lna s' = vec_add (lna_drift s') (mat_vec L (mat_col (draws s) j))"
    and "lna_state_vec s' = CALL_INTEGRATE_STEM_LNA integ (ode_pars s)
           (replicate (length (lna_state_vec s)) 0) (lna_times ! j) (lna_times ! (j + 1)) (1 / 1000)"
    and "lna_drift s' = take (n_cols stoich_matrix) (lna_state_vec s')"
    and "lna_diffusion s' = symmatu (mat_of_colmajor (n_cols stoich_matrix) (n_cols stoich_matrix)
           (drop (n_cols stoich_matrix) (lna_state_vec s')))"
    and "nat_lna s' = clamp_neg (map (\<lambda>x. exp x - 1) (log_lna s'))"
    and "c_incid s' = vec_add (c_incid s) (nat_lna s')"
    and "lna_path s' = set_col_span (lna_path s) (n_cols stoich_matrix) (j + 1) (c_incid s')"
    and "init_volumes s' = clamp_neg (vec_add (init_state s) (mat_vec stoich_matrix (c_incid s')))"
    and "current_params s' = copy_into (init_volumes s') (nat init_start)
           (if param_update_inds ! (j + 1) then mat_row lna_pars (j + 1) else current_params s)"
    and "ode_pars s' = current_params s'"
    and "set_pars_log s' = set_pars_log s @ [current_params s']"
    and "init_state s' = init_state s"
    and "draws s' = draws s"
    and "1 \<le> n_cols stoich_matrix"
    and "j + 1 < length param_update_inds"
    and "0 \<le> init_start"
    and "param_update_inds ! (j + 1) \<Longrightarrow> j + 1 < n_rows lna_pars"
    and "nat init_start + n_rows stoich_matrix
           \<le> length (if param_update_inds ! (j + 1) then mat_row lna_pars (j + 1) else current_params s)"
proof -
  let ?n = "n_cols stoich_matrix"
  let ?s2 = "integrate_interval integ lna_times stoich_matrix j s"
  note d = propose_lna_interval_def Let_def forward_exception_to_r_def
  obtain L where L: "chol (lna_diffusion ?s2) = Some L"
    using assms by (cases "chol (lna_diffusion ?s2)") (simp_all add: d)
  have c1: "n_cols L = ?n \<and> n_rows L = ?n"
    using assms L by (simp add: d split: if_splits)
  have fb: "feed_back lna_pars init_start param_update_inds stoich_matrix j (map_perturbation L j ?s2) = Inr s'"
    using assms L c1 by (simp add: d)
  note f = feed_back_Inr[OF fb]
  note e = integrate_interval_def map_perturbation_def Let_def
  show "1 \<le> n_cols stoich_matrix" by (rule f(1))
  show "j + 1 < length param_update_inds" by (rule f(2))
  show "0 \<le> init_start" by (rule f(4))
  show "param_update_inds ! (j + 1) \<Longrightarrow> j + 1 < n_rows lna_pars" by (rule f(3))
  show "nat init_start + n_rows stoich_matrix
           \<le> length (if param_update_inds ! (j + 1) then mat_row lna_pars (j + 1) else current_params s)"
    using f(5) by (cases "param_update_inds ! (j + 1)") (simp_all add: e)
  show "lna_state_vec s' = CALL_INTEGRATE_STEM_LNA integ (ode_pars s)
           (replicate (length (lna_state_vec s)) 0) (lna_times ! j) (lna_times ! (j + 1)) (1 / 1000)"
    by (simp add: f(6) e)
  show "lna_drift s' = take (n_cols stoich_matrix) (lna_state_vec s')" by (simp add: f(6) e)
  show "lna_diffusion s' = symmatu (mat_of_colmajor ?n ?n (drop ?n (lna_state_vec s')))"
    by (simp add: f(6) e)
  show "\<exists>L. chol (lna_diffusion s') = Some L
           \<and> n_rows L = n_cols stoich_matrix \<and> n_cols L = n_cols stoich_matrix
           \<and> log_lna s' = vec_add (lna_drift s') (mat_vec L (mat_col (draws s) j))"
    using L c1 by (simp add: f(6) e)
  show "nat_lna s' = clamp_neg (map (\<lambda>x. exp x - 1) (log_lna s'))" by (simp add: f(6) e)
  show "c_incid s' = vec_add (c_incid s) (nat_lna s')" by (simp add: f(6) e)
  show "lna_path s' = set_col_span (lna_path s) (n_cols stoich_matrix) (j + 1) (c_incid s')"
    by (simp add: f(6) e)
  show "init_volumes s' = clamp_neg (vec_add (init_state s) (mat_vec stoich_matrix (c_incid s')))"
    by (simp add: f(6) e)
  show "current_params s' = copy_into (init_volumes s') (nat init_start)
           (if param_update_inds ! (j + 1) then mat_row lna_pars (j + 1) else current_params s)"
    by (simp add: f(6) e)
  show "ode_pars s' = current_params s'" by (simp add: f(6) e)
  show "set_pars_log s' = set_pars_log s @ [current_params s']" by (simp add: f(6) e)
  show "init_state s' = init_state s" by (simp add: f(6) e)
  show "draws s' = draws s" by (simp add: f(6) e)
qed

lemma length_vec_add [simp]: "length (vec_add u v) = length u"
  by (simp add: vec_add_def)

lemma nth_vec_add [simp]: "i < length u \<Longrightarrow> vec_add u v ! i = u ! i + v ! i"
  by (simp add: vec_add_def)

lemma length_clamp_neg [simp]: "length (clamp_neg v) = length v"
  by (simp add: clamp_neg_def)

lemma nth_clamp_neg [simp]: "i < length v \<Longrightarrow> clamp_neg v ! i = (if v ! i < 0 then 0 else v ! i)"
  by (simp add: clamp_neg_def)

lemma clamp_neg_nonneg: "x \<in> set (clamp_neg v) \<Longrightarrow> 0 \<le> x"
  by (auto simp: clamp_neg_def)

lemma length_mat_vec [simp]: "length (mat_vec M v) = n_rows M"
  by (simp add: mat_vec_def)

lemma length_mat_row [simp]: "length (mat_row M r) = n_cols M"
  by (simp add: mat_row_def)

lemma nth_mat_row [simp]: "c < n_cols M \<Longrightarrow> mat_row M r ! c = entry M r c"
  by (simp add: mat_row_def)

lemma length_CALL_INTEGRATE [simp]:
  "length (CALL_INTEGRATE_STEM_LNA integ p buf t_L t_R tol) = length buf"
  by (simp add: CALL_INTEGRATE_STEM_LNA_def)

lemma length_copy_into [simp]:
  "off + length src \<le> length dst \<Longrightarrow> length (copy_into src off dst) = length dst"
  by (simp add: copy_into_def)

lemma nth_copy_into:
  "off + length src \<le> length dst \<Longrightarrow> i < length dst \<Longrightarrow>
   copy_into src off dst ! i =
     (if off \<le> i \<and> i < off + length src then src ! (i - off) else dst ! i)"
  by (auto simp: copy_into_def nth_append)

lemma take_drop_copy_into:
  "off + length src \<le> length dst \<Longrightarrow> take (length src) (drop off (copy_into src off dst)) = src"
  by (simp add: copy_into_def)

lemma propose_lna_init_Inr:
  assumes "propose_lna_init randn ts pars i0 S = Inr s"
  shows "s = \<lparr>ode_pars = mat_row pars 0, set_pars_log = [mat_row pars 0],
              current_params = mat_row pars 0,
              lna_state_vec = replicate (n_cols S + n_cols S * n_cols S) 0,
              lna_path = \<lparr>n_rows = n_cols S + 1, n_cols = length ts,
                          entry = (\<lambda>r c. if r = 0 then ts ! c else 0)\<rparr>,
              init_state = take (n_rows S) (drop (nat i0) (mat_row pars 0)),
              init_volumes = take (n_rows S) (drop (nat i0) (mat_row pars 0)),
              lna_drift = replicate (n_cols S) 0,
              lna_diffusion = \<lparr>n_rows = n_cols S, n_cols = n_cols S, entry = (\<lambda>_ _. 0)\<rparr>,
              log_lna = replicate (n_cols S) 0,
              nat_lna = replicate (n_cols S) 0,
              c_incid = replicate (n_cols S) 0,
              draws = \<lparr>n_rows = n_cols S, n_cols = length ts - 1, entry = randn\<rparr>\<rparr>"
    and "0 < n_rows pars" and "0 \<le> i0" and "nat i0 + n_rows S \<le> n_cols pars" and "ts \<noteq> []"
  using assms unfolding propose_lna_init_def Let_def CALL_SET_LNA_PARAMS_def
  by (auto split: if_splits)

lemma proposer_inv_init:
  assumes "propose_lna_init randn ts pars i0 S = Inr s"
  shows "proposer_inv randn ts pars i0 S 0 s"
  using propose_lna_init_Inr(2-)[OF assms]
  by (auto simp: propose_lna_init_Inr(1)[OF assms] proposer_inv_def)

lemma proposer_inv_step:
  assumes inv: "proposer_inv randn ts pars i0 S k s"
    and step: "propose_lna_interval integ chol ts pars i0 flags S k s = Inr s'"
  shows "proposer_inv randn ts pars i0 S (Suc k) s'"
proof -
  note f = propose_lna_interval_Inr[OF step]
  have len_cp: "length (if flags ! (k + 1) then mat_row pars (k + 1) else current_params s) = n_cols pars"
    using inv by (simp add: proposer_inv_def)
  have "length (init_state s) = n_rows S"
    using inv by (auto simp: proposer_inv_def)
  then have len_iv: "length (init_volumes s') = n_rows S"
    by (simp add: f(8))
  have 1: "length (lna_state_vec s') = n_cols S + n_cols S * n_cols S"
    using inv by (simp add: f(2) proposer_inv_def)
  have 2: "length (c_incid s') = n_cols S"
    using inv by (simp add: f(6) proposer_inv_def)
  have 3: "length (current_params s') = n_cols pars"
    using inv len_cp len_iv by (simp add: f(9) proposer_inv_def)
  have 4: "\<forall>e. 1 \<le> e \<and> e \<le> n_cols S \<longrightarrow> entry (lna_path s') e (Suc k) = c_incid s' ! (e - 1)"
    by (simp add: f(7) set_col_span_def)
  have 5: "\<forall>c. entry (lna_path s') 0 c = ts ! c"
    using inv by (simp add: f(7) set_col_span_def proposer_inv_def)
  have 6: "n_rows (lna_path s') = n_cols S + 1 \<and> n_cols (lna_path s') = length ts"
    using inv by (simp add: f(7) set_col_span_def proposer_inv_def)
  have "nat i0 + length (init_volumes s')
          \<le> length (if flags ! (k + 1) then mat_row pars (k + 1) else current_params s)"
    using inv by (simp only: len_iv len_cp) (simp add: proposer_inv_def)
  then have 7: "take (n_rows S) (drop (nat i0) (current_params s')) = init_volumes s'"
    unfolding f(9) using take_drop_copy_into len_iv by metis
  show ?thesis
    unfolding proposer_inv_def
    using 1 2 3 4 5 6 7 inv f(10-13) by (simp add: proposer_inv_def)
qed

lemma proposer_inv_upto:
  "propose_lna_upto integ chol randn ts pars i0 flags S k = Inr s \<Longrightarrow> proposer_inv randn ts pars i0 S k s"
proof (induction k arbitrary: s)
  case 0
  then show ?case by (simp add: propose_lna_upto_0 proposer_inv_init)
next
  case (Suc k)
  then show ?case
    by (auto simp: propose_lna_upto_Suc split: sum.splits intro: proposer_inv_step)
qed

lemma propose_lna_upto_prefix:
  "propose_lna_upto integ chol randn ts pars i0 flags S m = Inr t \<Longrightarrow> k \<le> m \<Longrightarrow>
   \<exists>s. propose_lna_upto integ chol randn ts pars i0 flags S k = Inr s"
proof (induction m arbitrary: t)
  case 0
  then show ?case by simp
next
  case (Suc m)
  show ?case
  proof (cases "k = Suc m")
    case True
    with Suc.prems show ?thesis by simp
  next
    case False
    with Suc.prems have "k \<le> m" by simp
    moreover from Suc.prems(1) obtain u where
      "propose_lna_upto integ chol randn ts pars i0 flags S m = Inr u"
      by (auto simp: propose_lna_upto_Suc split: sum.splits)
    ultimately show ?thesis using Suc.IH by blast
  qed
qed

lemma propose_lna_upto_step:
  "propose_lna_upto integ chol randn ts pars i0 flags S (Suc k) = Inr s' \<Longrightarrow>
   \<exists>s. propose_lna_upto integ chol randn ts pars i0 flags S k = Inr s
      \<and> propose_lna_interval integ chol ts pars i0 flags S k s = Inr s'"
  by (auto simp: propose_lna_upto_Suc split: sum.splits)

text \<open>Columns up to \<open>k\<close> of the path are final after \<open>k\<close> passes.\<close>

lemma propose_lna_path_frame:
  "propose_lna_upto integ chol randn ts pars i0 flags S m = Inr t \<Longrightarrow>
   propose_lna_upto integ chol randn ts pars i0 flags S k = Inr s \<Longrightarrow> k \<le> m \<Longrightarrow> c \<le> k \<Longrightarrow>
   entry (lna_path t) r c = entry (lna_path s) r c"
proof (induction m arbitrary: t)
  case 0
  then show ?case by simp
next
  case (Suc m)
  show ?case
  proof (cases "k = Suc m")
    case True
    with Suc.prems show ?thesis by simp
  next
    case False
    with Suc.prems have km: "k \<le> m" by simp
    from propose_lna_upto_step[OF Suc.prems(1)] obtain u where
      u: "propose_lna_upto integ chol randn ts pars i0 flags S m = Inr u"
      and st: "propose_lna_interval integ chol ts pars i0 flags S m u = Inr t"
      by blast
    have "entry (lna_path t) r c = entry (lna_path u) r c"
      using km Suc.prems(4) by (simp add: propose_lna_interval_Inr(7)[OF st] set_col_span_def)
    also have "\<dots> = entry (lna_path s) r c"
      using Suc.IH[OF u Suc.prems(2) km Suc.prems(4)] .
    finally show ?thesis .
  qed
qed

lemma propose_lna_Inr:
  assumes "propose_lna integ chol randn ts pars i0 flags S = Inr out"
  shows "\<exists>t. propose_lna_upto integ chol randn ts pars i0 flags S (length ts - 1) = Inr t
           \<and> proposal_lna_path out = transpose_mat (lna_path t)
           \<and> proposal_draws out = draws t"
  using assms by (auto simp: propose_lna_def split: sum.splits)

lemma propose_lna_upto_pass:
  assumes "propose_lna_upto integ chol randn ts pars i0 flags S m = Inr t" and "j < m"
  shows "\<exists>s s'. propose_lna_upto integ chol randn ts pars i0 flags S j = Inr s
           \<and> propose_lna_upto integ chol randn ts pars i0 flags S (Suc j) = Inr s'
           \<and> propose_lna_interval integ chol ts pars i0 flags S j s = Inr s'"
proof -
  from assms have "Suc j \<le> m" by simp
  from propose_lna_upto_prefix[OF assms(1) this] obtain s' where
    s': "propose_lna_upto integ chol randn ts pars i0 flags S (Suc j) = Inr s'" by blast
  from propose_lna_upto_step[OF s'] s' show ?thesis by blast
qed

lemma propose_lna_upto_failure:
  "propose_lna_upto integ chol randn ts pars i0 flags S k = Inl e \<Longrightarrow> k \<le> m \<Longrightarrow>
   propose_lna_upto integ chol randn ts pars i0 flags S m = Inl e"
proof (induction m)
  case 0
  then show ?case by simp
next
  case (Suc m)
  show ?case
  proof (cases "k = Suc m")
    case True
    with Suc.prems show ?thesis by simp
  next
    case False
    with Suc.prems have "k \<le> m" by simp
    with Suc show ?thesis by (simp add: propose_lna_upto_Suc)
  qed
qed

lemma length_nat_lna:
  assumes "proposer_inv randn ts pars i0 S k s"
    and "propose_lna_interval integ chol ts pars i0 flags S k s = Inr s'"
  shows "length (nat_lna s') = n_cols S" and "length (lna_drift s') = n_cols S"
proof -
  note f = propose_lna_interval_Inr[OF assms(2)]
  from f(1) obtain L where L: "log_lna s' = vec_add (lna_drift s') (mat_vec L (mat_col (draws s) k))"
    by blast
  have "length (lna_state_vec s') = n_cols S + n_cols S * n_cols S"
    using assms(1) by (simp add: f(2) proposer_inv_def)
  then show "length (lna_drift s') = n_cols S" by (simp add: f(3))
  then show "length (nat_lna s') = n_cols S" by (simp add: f(5) L)
qed

text \<open>The returned rows \<open>j\<close> and \<open>j + 1\<close> in terms of the pass between them.\<close>

lemma propose_lna_rows:
  assumes out: "propose_lna integ chol randn ts pars i0 flags S = Inr out"
    and j: "j + 1 < length ts"
  shows "\<exists>s s'. propose_lna_upto integ chol randn ts pars i0 flags S j = Inr s
           \<and> propose_lna_upto integ chol randn ts pars i0 flags S (Suc j) = Inr s'
           \<and> propose_lna_interval integ chol ts pars i0 flags S j s = Inr s'
           \<and> draws s = proposal_draws out
           \<and> proposal_draws out = \<lparr>n_rows = n_cols S, n_cols = length ts - 1, entry = randn\<rparr>
           \<and> length (nat_lna s') = n_cols S
           \<and> (\<forall>e. 1 \<le> e \<and> e \<le> n_cols S \<longrightarrow>
                  entry (proposal_lna_path out) j e = c_incid s ! (e - 1)
                \<and> entry (proposal_lna_path out) (j + 1) e = c_incid s' ! (e - 1))"
proof -
  from propose_lna_Inr[OF out] obtain t where
    t: "propose_lna_upto integ chol randn ts pars i0 flags S (length ts - 1) = Inr t"
    and p: "proposal_lna_path out = transpose_mat (lna_path t)"
    and d: "proposal_draws out = draws t" by blast
  from j have jm: "j < length ts - 1" by simp
  from propose_lna_upto_pass[OF t jm] obtain s s' where
    s: "propose_lna_upto integ chol randn ts pars i0 flags S j = Inr s"
    and s': "propose_lna_upto integ chol randn ts pars i0 flags S (Suc j) = Inr s'"
    and st: "propose_lna_interval integ chol ts pars i0 flags S j s = Inr s'" by blast
  note inv_s = proposer_inv_upto[OF s]
  note inv_s' = proposer_inv_upto[OF s']
  note inv_t = proposer_inv_upto[OF t]
  have "draws s = proposal_draws out"
    using inv_s inv_t by (simp add: d proposer_inv_def)
  moreover have "proposal_draws out = \<lparr>n_rows = n_cols S, n_cols = length ts - 1, entry = randn\<rparr>"
    using inv_t by (simp add: d proposer_inv_def)
  moreover have "length (nat_lna s') = n_cols S"
    by (rule length_nat_lna[OF inv_s st])
  moreover have "entry (proposal_lna_path out) j e = c_incid s ! (e - 1)
        \<and> entry (proposal_lna_path out) (j + 1) e = c_incid s' ! (e - 1)"
    if e: "1 \<le> e \<and> e \<le> n_cols S" for e
  proof -
    have "entry (lna_path t) e j = entry (lna_path s) e j"
      using propose_lna_path_frame[OF t s] jm by simp
    moreover have "entry (lna_path t) e (Suc j) = entry (lna_path s') e (Suc j)"
      using propose_lna_path_frame[OF t s'] jm by simp
    ultimately show ?thesis
      using inv_s inv_s' e by (simp add: p transpose_mat_def proposer_inv_def)
  qed
  ultimately show ?thesis using s s' st by blast
qed

lemma propose_lna_unflagged_entries:
  assumes flags: "\<forall>i. 1 \<le> i \<and> i < length flags \<longrightarrow> \<not> flags ! i"
  shows "propose_lna_upto integ chol randn ts pars i0 flags S k = Inr s \<Longrightarrow>
         i < n_cols pars \<Longrightarrow> i < nat i0 \<or> nat i0 + n_rows S \<le> i \<Longrightarrow>
         current_params s ! i = entry pars 0 i"
proof (induction k arbitrary: s)
  case 0
  then have "propose_lna_init randn ts pars i0 S = Inr s"
    by (simp add: propose_lna_upto_0)
  from propose_lna_init_Inr(1)[OF this] have "current_params s = mat_row pars 0"
    by simp
  with 0 show ?case by simp
next
  case (Suc k)
  from propose_lna_upto_step[OF Suc.prems(1)] obtain u where
    u: "propose_lna_upto integ chol randn ts pars i0 flags S k = Inr u"
    and st: "propose_lna_interval integ chol ts pars i0 flags S k u = Inr s" by blast
  note f = propose_lna_interval_Inr[OF st]
  note inv = proposer_inv_upto[OF u]
  have nf: "\<not> flags ! (k + 1)" using flags f(15) by simp
  have "length (init_state u) = n_rows S"
    using inv by (auto simp: proposer_inv_def)
  then have len_iv: "length (init_volumes s) = n_rows S" by (simp add: f(8))
  have len_cp: "length (current_params u) = n_cols pars"
    using inv by (simp add: proposer_inv_def)
  have fit: "nat i0 + length (init_volumes s) \<le> length (current_params u)"
    using f(18) nf len_iv by simp
  have "current_params s ! i = current_params u ! i"
    using nf Suc.prems(2,3) len_iv len_cp by (auto simp: f(9) nth_copy_into[OF fit])
  also have "\<dots> = entry pars 0 i"
    by (rule Suc.IH[OF u Suc.prems(2,3)])
  finally show ?case .
qed

text \<open>The first vector pushed to the callback is parameter row 0.\<close>

lemma propose_lna_first_push:
  "propose_lna_upto integ chol randn ts pars i0 flags S k = Inr s \<Longrightarrow>
   hd (set_pars_log s) = mat_row pars 0"
proof (induction k arbitrary: s)
  case 0
  then have "propose_lna_init randn ts pars i0 S = Inr s"
    by (simp add: propose_lna_upto_0)
  from propose_lna_init_Inr(1)[OF this] have "set_pars_log s = [mat_row pars 0]"
    by simp
  then show ?case by simp
next
  case (Suc k)
  from propose_lna_upto_step[OF Suc.prems] obtain u where
    u: "propose_lna_upto integ chol randn ts pars i0 flags S k = Inr u"
    and st: "propose_lna_interval integ chol ts pars i0 flags S k u = Inr s" by blast
  have "set_pars_log u \<noteq> []"
    using proposer_inv_upto[OF u] by (auto simp: proposer_inv_def)
  then have "hd (set_pars_log s) = hd (set_pars_log u)"
    by (simp add: propose_lna_interval_Inr(11)[OF st])
  with Suc.IH[OF u] show ?case by simp
qed

lemmas example_defs = example_stoich_def example_pars_def example_times_def example_integ_def
  example_integ_neg_def example_integ_zero_def example_chol_def example_pars_neg_def
  example_randn_def

lemmas model_defs = propose_lna_def propose_lna_upto_def propose_lna_init_def propose_lna_interval_def
  integrate_interval_def map_perturbation_def feed_back_def CALL_SET_LNA_PARAMS_def
  CALL_INTEGRATE_STEM_LNA_def forward_exception_to_r_def Let_def
  mat_row_def mat_col_def mat_vec_def vec_add_def clamp_neg_def set_col_span_def copy_into_def
  symmatu_def mat_of_colmajor_def transpose_mat_def

text \<open>The example model runs to the end, with draws 1 and \<open>-1\<close> over its two intervals.\<close>

lemma example_run:
  "\<exists>out. propose_lna example_integ example_chol example_randn example_times example_pars 1
      [True, False, False] example_stoich = Inr out"
  by (simp add: model_defs example_defs eval_nat_numeral)

lemma example_pass_flagged:
  "\<exists>s'. propose_lna_upto example_integ example_chol example_randn example_times example_pars 1
      [True, True, False] example_stoich (Suc 0) = Inr s' \<and> c_incid s' = [exp 1 - 1]
      \<and> take 1 (current_params s') = [1 / 2]"
  by (simp add: model_defs example_defs upt_conv_Cons)

lemma example_two_passes:
  "\<exists>s. propose_lna_upto example_integ example_chol example_randn example_times example_pars 1
      [True, False, False] example_stoich 2 = Inr s"
  by (simp add: model_defs example_defs eval_nat_numeral)

lemma example_entry_neg:
  "\<exists>s. propose_lna_upto example_integ_neg example_chol example_randn example_times example_pars 1
      [True, False, False] example_stoich 0 = Inr s \<and> length (lna_state_vec s) = 2"
  by (simp add: model_defs example_defs)

lemma clamp_neg_not_negative: "x \<in> set (clamp_neg v) \<Longrightarrow> \<not> x < 0"
  by (auto simp: clamp_neg_def)

lemma example_chol_refuses: "chol_refuses_nonpositive_pivot example_chol"
  by (simp add: chol_refuses_nonpositive_pivot_def example_chol_def)

lemma example_entry_zero:
  "\<exists>s. propose_lna_upto example_integ_zero example_chol example_randn example_times example_pars 1
      [True, False, False] example_stoich 0 = Inr s \<and> length (lna_state_vec s) = 2"
  by (simp add: model_defs example_defs)

section \<open>Lemmas on lna\_density2\<close>

lemma lna_density2_upto_Suc:
  "lna_density2_upto integ dmvtn path ts pars flags F (Suc k) =
     (case lna_density2_upto integ dmvtn path ts pars flags F k of
        Inl e \<Rightarrow> Inl e
      | Inr s \<Rightarrow> lna_density2_interval integ dmvtn path ts pars flags F (Suc k) s)"
  by (simp add: lna_density2_upto_def for_loop_append split: sum.splits)

lemma lna_density2_upto_0:
  "lna_density2_upto integ dmvtn path ts pars flags F 0 = lna_density2_init path pars F"
  by (simp add: lna_density2_upto_def split: sum.splits)

lemma lna_density2_interval_Inr:
  assumes "lna_density2_interval integ dmvtn path ts pars flags F j s = Inr s'"
  shows "j - 1 < length flags"
    and "flags ! (j - 1) \<Longrightarrow> j - 1 < n_rows pars"
    and "0 < n_rows F"
    and "j < n_rows (residual_process s)"
    and "n_cols (residual_process s) = n_rows F"
    and "j < n_rows (path_res_path path)"
    and "n_rows F < n_cols (path_res_path path)"
    and "j < length (path_diffusion path)"
    and "ode_pars s' = (if flags ! (j - 1) then mat_row pars (j - 1) else ode_pars s)"
    and "current_params s' = (if flags ! (j - 1) then mat_row pars (j - 1) else current_params s)"
    and "set_pars_log s' = (if flags ! (j - 1) then set_pars_log s @ [mat_row pars (j - 1)]
                            else set_pars_log s)"
    and "residual_process s' = set_row (residual_process s) j
           (take (n_rows F) (drop (n_rows F)
              (CALL_INTEGRATE_STEM_LNA integ (ode_pars s') (lna_state_vec s) (ts ! (j - 1)) (ts ! j) 1)))"
    and "lna_log_lik s' = lna_log_lik s
           + dmvtn (row_span (path_res_path path) j (n_rows F)) (mat_row (residual_process s') j)
               (path_diffusion path ! j)"
    and "lna_state_vec s' = copy_into (row_span (path_res_path path) j (n_rows F)) (n_rows F)
           (CALL_INTEGRATE_STEM_LNA integ (ode_pars s') (lna_state_vec s) (ts ! (j - 1)) (ts ! j) 1)"
    and "lna_path s' = lna_path s"
proof -
  note d = lna_density2_interval_def Let_def CALL_SET_LNA_PARAMS_def
  show c1: "j - 1 < length flags"
    using assms by (simp add: d split: if_splits)
  show c2: "flags ! (j - 1) \<Longrightarrow> j - 1 < n_rows pars"
  proof (rule ccontr)
    assume "flags ! (j - 1)" and "\<not> j - 1 < n_rows pars"
    then show False using assms c1 by (simp add: d)
  qed
  have c3: "0 < n_rows F \<and> j < n_rows (residual_process s) \<and> n_cols (residual_process s) = n_rows F"
  proof (rule ccontr)
    assume "\<not> ?thesis"
    then show False using assms c1 c2
      by (cases "flags ! (j - 1)") (simp_all add: d not_less split: if_splits)
  qed
  have c4: "j < n_rows (path_res_path path) \<and> n_rows F < n_cols (path_res_path path)
           \<and> j < length (path_diffusion path)"
  proof (rule ccontr)
    assume "\<not> ?thesis"
    then show False using assms c1 c2 c3
      by (cases "flags ! (j - 1)") (simp_all add: d not_less split: if_splits)
  qed
  show "0 < n_rows F" "j < n_rows (residual_process s)" "n_cols (residual_process s) = n_rows F"
    using c3 by simp_all
  show "j < n_rows (path_res_path path)" "n_rows F < n_cols (path_res_path path)"
    "j < length (path_diffusion path)"
    using c4 by simp_all
  define p where "p = (if flags ! (j - 1) then mat_row pars (j - 1) else ode_pars s)"
  define B where "B = CALL_INTEGRATE_STEM_LNA integ p (lna_state_vec s) (ts ! (j - 1)) (ts ! j) 1"
  define R where "R = set_row (residual_process s) j (take (n_rows F) (drop (n_rows F) B))"
  have eq: "Inr s' = lna_density2_interval integ dmvtn path ts pars flags F j s"
    using assms by simp
  have s': "s' = s\<lparr>ode_pars := p,
                   current_params := (if flags ! (j - 1) then mat_row pars (j - 1) else current_params s),
                   set_pars_log := (if flags ! (j - 1) then set_pars_log s @ [mat_row pars (j - 1)]
                                    else set_pars_log s),
                   residual_process := R,
                   lna_log_lik := lna_log_lik s
                      + dmvtn (row_span (path_res_path path) j (n_rows F)) (mat_row R j)
                          (path_diffusion path ! j),
                   res_vec := row_span (path_res_path path) j (n_rows F),
                   lna_state_vec := copy_into (row_span (path_res_path path) j (n_rows F)) (n_rows F) B\<rparr>"
  proof (cases "flags ! (j - 1)")
    case True
    then show ?thesis using eq c1 c2 c3 c4 unfolding d p_def B_def R_def by simp
  next
    case False
    then show ?thesis using eq c1 c2 c3 c4 unfolding d p_def B_def R_def by simp
  qed
  show op: "ode_pars s' = (if flags ! (j - 1) then mat_row pars (j - 1) else ode_pars s)"
    by (simp add: s' p_def)
  show "current_params s' = (if flags ! (j - 1) then mat_row pars (j - 1) else current_params s)"
    by (simp add: s')
  show "set_pars_log s' = (if flags ! (j - 1) then set_pars_log s @ [mat_row pars (j - 1)]
                            else set_pars_log s)"
    by (simp add: s')
  have B: "B = CALL_INTEGRATE_STEM_LNA integ (ode_pars s') (lna_state_vec s) (ts ! (j - 1)) (ts ! j) 1"
    unfolding op B_def p_def ..
  show rp: "residual_process s' = set_row (residual_process s) j
           (take (n_rows F) (drop (n_rows F)
              (CALL_INTEGRATE_STEM_LNA integ (ode_pars s') (lna_state_vec s) (ts ! (j - 1)) (ts ! j) 1)))"
    unfolding B[symmetric] by (simp add: s' R_def)
  show "lna_log_lik s' = lna_log_lik s
           + dmvtn (row_span (path_res_path path) j (n_rows F)) (mat_row (residual_process s') j)
               (path_diffusion path ! j)"
    unfolding rp B[symmetric] by (simp add: s' R_def)
  show "lna_state_vec s' = copy_into (row_span (path_res_path path) j (n_rows F)) (n_rows F)
           (CALL_INTEGRATE_STEM_LNA integ (ode_pars s') (lna_state_vec s) (ts ! (j - 1)) (ts ! j) 1)"
    unfolding B[symmetric] by (simp add: s')
  show "lna_path s' = lna_path s" by (simp add: s')
qed

lemma lna_density2_init_Inr:
  assumes "lna_density2_init path pars F = Inr s"
  shows "s = \<lparr>ode_pars = mat_row pars 0, set_pars_log = [mat_row pars 0],
              current_params = mat_row pars 0,
              lna_state_vec = replicate (2 * n_rows F) 0,
              lna_path = path_lna_path path,
              res_vec = replicate (n_rows F) 0,
              residual_process = path_residual path,
              lna_log_lik = 0\<rparr>"
  using assms unfolding lna_density2_init_def Let_def CALL_SET_LNA_PARAMS_def
  by (auto split: if_splits)

lemma entry_set_row:
  "entry (set_row M j v) r c = (if r = j \<and> c < n_cols M then v ! c else entry M r c)"
  by (simp add: set_row_def)

lemma mat_row_set_row_other: "r \<noteq> j \<Longrightarrow> mat_row (set_row M j v) r = mat_row M r"
  by (simp add: mat_row_def set_row_def)

lemma mat_row_set_row_same: "length v = n_cols M \<Longrightarrow> mat_row (set_row M j v) j = v"
  by (rule nth_equalityI) (simp_all add: mat_row_def set_row_def)

lemma length_row_span [simp]: "length (row_span M j n) = n"
  by (simp add: row_span_def)

lemma evaluator_inv_init:
  assumes "lna_density2_init path pars F = Inr s"
  shows "evaluator_inv dmvtn path F 0 s"
  by (simp add: lna_density2_init_Inr[OF assms] evaluator_inv_def)

lemma evaluator_inv_step:
  assumes inv: "evaluator_inv dmvtn path F k s"
    and step: "lna_density2_interval integ dmvtn path ts pars flags F (Suc k) s = Inr s'"
  shows "evaluator_inv dmvtn path F (Suc k) s'"
proof -
  note f = lna_density2_interval_Inr[OF step]
  let ?B = "CALL_INTEGRATE_STEM_LNA integ (ode_pars s') (lna_state_vec s) (ts ! (Suc k - 1)) (ts ! Suc k) 1"
  have lb: "length ?B = 2 * n_rows F"
    using inv by (simp add: evaluator_inv_def)
  have 1: "length (lna_state_vec s') = 2 * n_rows F"
    using lb by (simp add: f(14) copy_into_def)
  have 2: "n_rows (residual_process s') = n_rows (path_residual path)
         \<and> n_cols (residual_process s') = n_cols (path_residual path)"
    using inv by (simp add: f(12) set_row_def evaluator_inv_def)
  have 3: "\<forall>r c. r = 0 \<or> Suc k < r \<or> n_cols (path_residual path) \<le> c \<longrightarrow>
          entry (residual_process s') r c = entry (path_residual path) r c"
    using inv by (auto simp: f(12) entry_set_row evaluator_inv_def)
  have old: "mat_row (residual_process s') j = mat_row (residual_process s) j" if "j \<noteq> Suc k" for j
    using that by (simp add: f(12) mat_row_set_row_other)
  define g where "g R j = dmvtn (row_span (path_res_path path) j (n_rows F)) (mat_row R j)
                            (path_diffusion path ! j)" for R j
  have cong: "map (g (residual_process s')) [1..<k + 1] = map (g (residual_process s)) [1..<k + 1]"
    by (rule map_cong) (auto simp: g_def old)
  have ll: "lna_log_lik s = sum_list (map (g (residual_process s)) [1..<k + 1])"
    using inv unfolding evaluator_inv_def g_def by blast
  have step_ll: "lna_log_lik s' = lna_log_lik s + g (residual_process s') (Suc k)"
    unfolding g_def by (rule f(13))
  have upt: "[1..<Suc k + 1] = [1..<k + 1] @ [Suc k]" by simp
  have "lna_log_lik s' = sum_list (map (g (residual_process s')) [1..<Suc k + 1])"
    unfolding upt map_append sum_list_append cong step_ll ll by simp
  then have 4: "lna_log_lik s' =
       sum_list (map (\<lambda>j. dmvtn (row_span (path_res_path path) j (n_rows F))
                            (mat_row (residual_process s') j) (path_diffusion path ! j)) [1..<Suc k + 1])"
    unfolding g_def .
  have 5: "lna_path s' = path_lna_path path"
    using inv by (simp add: f(15) evaluator_inv_def)
  show ?thesis
    unfolding evaluator_inv_def using 1 2 3 4 5 by blast
qed

lemma evaluator_inv_upto:
  "lna_density2_upto integ dmvtn path ts pars flags F k = Inr s \<Longrightarrow> evaluator_inv dmvtn path F k s"
proof (induction k arbitrary: s)
  case 0
  then show ?case by (simp add: lna_density2_upto_0 evaluator_inv_init)
next
  case (Suc k)
  then show ?case
    by (auto simp: lna_density2_upto_Suc split: sum.splits intro: evaluator_inv_step)
qed

lemma lna_density2_upto_step:
  "lna_density2_upto integ dmvtn path ts pars flags F (Suc k) = Inr s' \<Longrightarrow>
   \<exists>s. lna_density2_upto integ dmvtn path ts pars flags F k = Inr s
      \<and> lna_density2_interval integ dmvtn path ts pars flags F (Suc k) s = Inr s'"
  by (auto simp: lna_density2_upto_Suc split: sum.splits)

lemma lna_density2_upto_prefix:
  "lna_density2_upto integ dmvtn path ts pars flags F m = Inr t \<Longrightarrow> k \<le> m \<Longrightarrow>
   \<exists>s. lna_density2_upto integ dmvtn path ts pars flags F k = Inr s"
proof (induction m arbitrary: t)
  case 0
  then show ?case by simp
next
  case (Suc m)
  show ?case
  proof (cases "k = Suc m")
    case True
    with Suc.prems show ?thesis by simp
  next
    case False
    with Suc.prems have "k \<le> m" by simp
    moreover from lna_density2_upto_step[OF Suc.prems(1)] obtain u where
      "lna_density2_upto integ dmvtn path ts pars flags F m = Inr u" by blast
    ultimately show ?thesis using Suc.IH by blast
  qed
qed

text \<open>Rows up to \<open>k\<close> of the residual process are final after pass \<open>k\<close>.\<close>

lemma lna_density2_residual_frame:
  "lna_density2_upto integ dmvtn path ts pars flags F m = Inr t \<Longrightarrow>
   lna_density2_upto integ dmvtn path ts pars flags F k = Inr s \<Longrightarrow> k \<le> m \<Longrightarrow> r \<le> k \<Longrightarrow>
   entry (residual_process t) r c = entry (residual_process s) r c"
proof (induction m arbitrary: t)
  case 0
  then show ?case by simp
next
  case (Suc m)
  show ?case
  proof (cases "k = Suc m")
    case True
    with Suc.prems show ?thesis by simp
  next
    case False
    with Suc.prems have km: "k \<le> m" by simp
    from lna_density2_upto_step[OF Suc.prems(1)] obtain u where
      u: "lna_density2_upto integ dmvtn path ts pars flags F m = Inr u"
      and st: "lna_density2_interval integ dmvtn path ts pars flags F (Suc m) u = Inr t"
      by blast
    have "entry (residual_process t) r c = entry (residual_process u) r c"
      using km Suc.prems(4) by (simp add: lna_density2_interval_Inr(12)[OF st] entry_set_row)
    also have "\<dots> = entry (residual_process s) r c"
      using Suc.IH[OF u Suc.prems(2) km Suc.prems(4)] .
    finally show ?thesis .
  qed
qed

lemma lna_density2_Inr:
  assumes "lna_density2 integ dmvtn path ts pars flags F = Inr out"
  shows "\<exists>t. lna_density2_upto integ dmvtn path ts pars flags F (length ts - 1) = Inr t
           \<and> out = \<lparr>path_lna_path = lna_path t,
                     path_res_path = path_res_path path,
                     path_drift = path_drift path,
                     path_residual = residual_process t,
                     path_diffusion = path_diffusion path,
                     path_data_log_lik = path_data_log_lik path,
                     path_lna_log_lik = lna_log_lik t\<rparr>"
  using assms by (auto simp: lna_density2_def split: sum.splits)

text \<open>Row \<open>j\<close> of the returned residual process is the residual part of the state vector
  integrated in pass \<open>j\<close>, started from the vector that pass \<open>j - 1\<close> left.\<close>

lemma lna_density2_rows:
  assumes out: "lna_density2 integ dmvtn path ts pars flags F = Inr out"
    and j: "1 \<le> j" "j < length ts"
  shows "\<exists>s s'. lna_density2_upto integ dmvtn path ts pars flags F (j - 1) = Inr s
           \<and> lna_density2_upto integ dmvtn path ts pars flags F j = Inr s'
           \<and> mat_row (path_residual out) j =
               take (n_rows F) (drop (n_rows F)
                 (CALL_INTEGRATE_STEM_LNA integ (ode_pars s') (lna_state_vec s) (ts ! (j - 1)) (ts ! j) 1))"
proof -
  from lna_density2_Inr[OF out] obtain t where
    t: "lna_density2_upto integ dmvtn path ts pars flags F (length ts - 1) = Inr t"
    and r: "path_residual out = residual_process t" by auto
  from j obtain k where k: "j = Suc k" by (cases j) auto
  from j have jm: "j \<le> length ts - 1" by simp
  from lna_density2_upto_prefix[OF t jm] obtain s' where
    s': "lna_density2_upto integ dmvtn path ts pars flags F j = Inr s'" by blast
  from lna_density2_upto_step[OF s'[unfolded k]] obtain s where
    s: "lna_density2_upto integ dmvtn path ts pars flags F k = Inr s"
    and st: "lna_density2_interval integ dmvtn path ts pars flags F (Suc k) s = Inr s'" by blast
  note f = lna_density2_interval_Inr[OF st]
  let ?B = "CALL_INTEGRATE_STEM_LNA integ (ode_pars s') (lna_state_vec s) (ts ! (Suc k - 1)) (ts ! Suc k) 1"
  have "length ?B = 2 * n_rows F"
    using evaluator_inv_upto[OF s] by (simp add: evaluator_inv_def)
  then have len: "length (take (n_rows F) (drop (n_rows F) ?B)) = n_cols (residual_process s)"
    by (simp add: f(5))
  have "mat_row (residual_process t) j = mat_row (residual_process s') j"
    unfolding mat_row_def
    using lna_density2_residual_frame[OF t s' jm] evaluator_inv_upto[OF t] evaluator_inv_upto[OF s']
    by (simp add: evaluator_inv_def)
  also have "\<dots> = take (n_rows F) (drop (n_rows F) ?B)"
    unfolding k f(12) by (rule mat_row_set_row_same[OF len])
  finally show ?thesis using s s' by (auto simp: r k)
qed

lemmas evaluator_defs = lna_density2_def lna_density2_upto_def lna_density2_init_def
  lna_density2_interval_def CALL_SET_LNA_PARAMS_def CALL_INTEGRATE_STEM_LNA_def Let_def
  mat_row_def row_span_def set_row_def copy_into_def

lemmas example_eval_defs = example_flow_def example_path_def example_integ_ess_def
  example_dmvtn_def example_pars_def example_times_def

lemma example_density_run:
  "\<exists>out. lna_density2 example_integ_ess example_dmvtn example_path example_times example_pars
      [True, False, False] example_flow = Inr out"
  by (simp add: evaluator_defs example_eval_defs eval_nat_numeral)

lemma example_density_passes:
  "\<exists>s0 s1 s2.
      lna_density2_upto example_integ_ess example_dmvtn example_path example_times example_pars
        [True, False, False] example_flow (2 - 2) = Inr s0
    \<and> lna_density2_upto example_integ_ess example_dmvtn example_path example_times example_pars
        [True, False, False] example_flow (2 - 1) = Inr s1
    \<and> lna_density2_upto example_integ_ess example_dmvtn example_path example_times example_pars
        [True, False, False] example_flow 2 = Inr s2
    \<and> lna_state_vec s0 = [0, 0, 0, 0]
    \<and> lna_state_vec s1 = [1, 1, 11, 12]"
  by (simp add: evaluator_defs example_eval_defs eval_nat_numeral)

section \<open>The path proposer\<close>



text \<open>
  C2. In the path that \<open>propose_lna\<close> returns, the column of every event is
  non-decreasing from each time point to the next.
\<close>

theorem propose_lna_path_nondecreasing:
  assumes "propose_lna integ chol randn lna_times lna_pars init_start param_update_inds stoich_matrix = Inr out"
    and "1 \<le> e" and "e \<le> n_cols stoich_matrix" and "j + 1 < length lna_times"
  shows "entry (proposal_lna_path out) j e \<le> entry (proposal_lna_path out) (j + 1) e"
proof -
  from propose_lna_rows[OF assms(1,4)] obtain s s' where
    s: "propose_lna_upto integ chol randn lna_times lna_pars init_start param_update_inds stoich_matrix j = Inr s"
    and st: "propose_lna_interval integ chol lna_times lna_pars init_start param_update_inds stoich_matrix j s = Inr s'"
    and ln: "length (nat_lna s') = n_cols stoich_matrix"
    and rows: "\<forall>e. 1 \<le> e \<and> e \<le> n_cols stoich_matrix \<longrightarrow>
                  entry (proposal_lna_path out) j e = c_incid s ! (e - 1)
                \<and> entry (proposal_lna_path out) (j + 1) e = c_incid s' ! (e - 1)"
    by blast
  note f = propose_lna_interval_Inr[OF st]
  have len: "length (c_incid s) = n_cols stoich_matrix"
    using proposer_inv_upto[OF s] by (simp add: proposer_inv_def)
  have "nat_lna s' ! (e - 1) \<in> set (nat_lna s')"
    using ln assms(2,3) by simp
  then have nonneg: "0 \<le> nat_lna s' ! (e - 1)"
    unfolding f(5) by (rule clamp_neg_nonneg)
  from len assms(2,3) have "e - 1 < length (c_incid s)" by arith
  then have "c_incid s' ! (e - 1) = c_incid s ! (e - 1) + nat_lna s' ! (e - 1)"
    by (simp add: f(6))
  with nonneg show ?thesis using rows assms(2,3) by simp
qed

theorem propose_lna_path_nondecreasing_witness:
  "(1::nat) \<le> 1 \<and> 1 \<le> n_cols example_stoich \<and> 1 + 1 < length example_times
   \<and> (\<exists>out. propose_lna example_integ example_chol example_randn example_times example_pars 1
               [True, False, False] example_stoich = Inr out
          \<and> entry (proposal_lna_path out) 1 1 \<le> entry (proposal_lna_path out) (1 + 1) 1)"
proof -
  from example_run obtain out where
    run: "propose_lna example_integ example_chol example_randn example_times example_pars 1
            [True, False, False] example_stoich = Inr out" by blast
  have e1: "(1::nat) \<le> 1" by simp
  have e2: "1 \<le> n_cols example_stoich" by (simp add: example_stoich_def)
  have j: "1 + 1 < length example_times" by (simp add: example_times_def)
  from propose_lna_path_nondecreasing[OF run e1 e2 j] e1 e2 j run show ?thesis by blast
qed

text \<open>
  C3, as amended. After the pass over interval \<open>j\<close>, the compartment volumes are the initial
  volumes, which are the \<open>n_comps\<close> entries of parameter row 0 from column \<open>init_start\<close>
  whatever the update flags are, plus the stoichiometry matrix times the cumulative
  incidence, with the negative entries set to 0. None of them is negative, they stand in
  the volume columns of the current parameters, and that vector is the one pushed last to
  the callback: push number \<open>j + 2\<close> since the function was entered. The first push, made
  before the loop, is parameter row 0 as it was supplied, with no entry clamped.
\<close>

theorem propose_lna_volumes:
  assumes "propose_lna_upto integ chol randn lna_times lna_pars init_start param_update_inds
             stoich_matrix (Suc j) = Inr s'"
  shows "init_volumes s' =
           clamp_neg (vec_add (take (n_rows stoich_matrix) (drop (nat init_start) (mat_row lna_pars 0)))
                        (mat_vec stoich_matrix (c_incid s')))
       \<and> length (init_volumes s') = n_rows stoich_matrix
       \<and> (\<forall>x \<in> set (init_volumes s'). \<not> x < 0)
       \<and> take (n_rows stoich_matrix) (drop (nat init_start) (current_params s')) = init_volumes s'
       \<and> length (set_pars_log s') = j + 2
       \<and> last (set_pars_log s') = current_params s'
       \<and> ode_pars s' = current_params s'
       \<and> hd (set_pars_log s') = mat_row lna_pars 0"
proof -
  from propose_lna_upto_step[OF assms] obtain s where
    s: "propose_lna_upto integ chol randn lna_times lna_pars init_start param_update_inds
          stoich_matrix j = Inr s"
    and st: "propose_lna_interval integ chol lna_times lna_pars init_start param_update_inds
          stoich_matrix j s = Inr s'" by blast
  note f = propose_lna_interval_Inr[OF st]
  note inv = proposer_inv_upto[OF s]
  note inv' = proposer_inv_upto[OF assms]
  have iv: "init_volumes s' =
           clamp_neg (vec_add (take (n_rows stoich_matrix) (drop (nat init_start) (mat_row lna_pars 0)))
                        (mat_vec stoich_matrix (c_incid s')))"
    using inv by (simp add: f(8) proposer_inv_def)
  have "length (init_state s) = n_rows stoich_matrix"
    using inv by (auto simp: proposer_inv_def)
  then have len: "length (init_volumes s') = n_rows stoich_matrix"
    by (simp add: f(8))
  have notneg: "\<forall>x \<in> set (init_volumes s'). \<not> x < 0"
    unfolding f(8) by (blast dest: clamp_neg_not_negative)
  have first: "hd (set_pars_log s') = mat_row lna_pars 0"
    by (rule propose_lna_first_push[OF assms])
  show ?thesis
    using iv len notneg first inv' by (simp add: proposer_inv_def)
qed

theorem propose_lna_volumes_witness:
  "\<exists>s'. propose_lna_upto example_integ example_chol example_randn example_times example_pars 1
      [True, True, False] example_stoich (Suc 0) = Inr s'
      \<and> mat_row example_pars 1 = [1 / 2, 110, 1]
      \<and> init_volumes s' = [11 - exp 1, exp 1]
      \<and> take 2 (drop 1 (current_params s')) = [11 - exp 1, exp 1]
      \<and> last (set_pars_log s') = current_params s'
      \<and> hd (set_pars_log s') = [1 / 2, 10, 1]"
proof -
  from example_pass_flagged obtain s' :: proposer_state where
    run: "propose_lna_upto example_integ example_chol example_randn example_times example_pars 1
      [True, True, False] example_stoich (Suc 0) = Inr s'"
    and c: "c_incid s' = [exp 1 - 1]" by blast
  have e: "exp 1 \<le> (11 :: real)" using exp_le by simp
  have "mat_row example_pars 1 = [1 / 2, 110, 1]" and r0: "mat_row example_pars 0 = [1 / 2, 10, 1]"
    by (simp_all add: example_defs mat_row_def upt_conv_Cons)
  moreover have "clamp_neg (vec_add (take (n_rows example_stoich) (drop (nat 1) (mat_row example_pars 0)))
                        (mat_vec example_stoich (c_incid s'))) = [11 - exp 1, exp 1]"
    using e by (simp add: c example_defs mat_row_def mat_vec_def vec_add_def clamp_neg_def upt_conv_Cons
        not_less[symmetric])
  ultimately show ?thesis
    using propose_lna_volumes[OF run] run by (auto simp: example_defs)
qed

text \<open>
  C3 as stated fails at the first time point: the volumes pushed before the first interval
  are those of parameter row 0, and a negative one among them is pushed as it is. The call
  below runs to its end.
\<close>

theorem propose_lna_first_push_counterexample:
  "\<not> isl (propose_lna example_integ example_chol example_randn example_times example_pars_neg 1
            [True, False, False] example_stoich)
   \<and> \<not> isl (propose_lna_upto example_integ example_chol example_randn example_times example_pars_neg 1
            [True, False, False] example_stoich 0)
   \<and> take (n_rows example_stoich) (drop (nat 1) (ode_pars (projr
         (propose_lna_upto example_integ example_chol example_randn example_times example_pars_neg 1
            [True, False, False] example_stoich 0)))) = [- 1, 1]"
  by (simp add: model_defs example_defs eval_nat_numeral upt_conv_Cons)

text \<open>
  C4, as amended. Let the loop reach an interval of the time grid whose integrated drift
  vector and diffusion matrix are zero, with at least one event. \<open>chol\<close> refuses the zero
  matrix, as it refuses every matrix whose leading entry is not positive, so the pass
  computes no increment: it ends in the runtime error, and so does the call, which returns
  no path.
\<close>

theorem propose_lna_zero_interval_refused:
  assumes "propose_lna_upto integ chol randn lna_times lna_pars init_start param_update_inds
             stoich_matrix j = Inr s"
    and "j + 1 < length lna_times"
    and "0 < n_cols stoich_matrix"
    and "lna_drift (integrate_interval integ lna_times stoich_matrix j s)
           = replicate (n_cols stoich_matrix) 0"
    and "\<forall>r c. r < n_cols stoich_matrix \<and> c < n_cols stoich_matrix \<longrightarrow>
           entry (lna_diffusion (integrate_interval integ lna_times stoich_matrix j s)) r c = 0"
    and "chol_refuses_nonpositive_pivot chol"
  shows "propose_lna_interval integ chol lna_times lna_pars init_start param_update_inds
           stoich_matrix j s = Inl Runtime_error
       \<and> propose_lna_upto integ chol randn lna_times lna_pars init_start param_update_inds
           stoich_matrix (Suc j) = Inl Runtime_error
       \<and> propose_lna integ chol randn lna_times lna_pars init_start param_update_inds stoich_matrix
           = Inl Runtime_error"
proof -
  let ?A = "lna_diffusion (integrate_interval integ lna_times stoich_matrix j s)"
  have "n_rows ?A = n_cols stoich_matrix"
    by (simp add: integrate_interval_def Let_def symmatu_def mat_of_colmajor_def)
  with assms(3) have "0 < n_rows ?A" by simp
  moreover from assms(3,5) have "entry ?A 0 0 \<le> 0" by simp
  ultimately have none: "chol ?A = None"
    using assms(6) unfolding chol_refuses_nonpositive_pivot_def by blast
  then have pass: "propose_lna_interval integ chol lna_times lna_pars init_start param_update_inds
          stoich_matrix j s = Inl Runtime_error"
    by (simp add: propose_lna_interval_def Let_def forward_exception_to_r_def)
  then have upto: "propose_lna_upto integ chol randn lna_times lna_pars init_start param_update_inds
               stoich_matrix (Suc j) = Inl Runtime_error"
    using assms(1) by (simp add: propose_lna_upto_Suc)
  moreover from assms(2) have "Suc j \<le> length lna_times - 1" by simp
  ultimately have "propose_lna_upto integ chol randn lna_times lna_pars init_start param_update_inds
               stoich_matrix (length lna_times - 1) = Inl Runtime_error"
    by (rule propose_lna_upto_failure)
  then have "propose_lna integ chol randn lna_times lna_pars init_start param_update_inds stoich_matrix
           = Inl Runtime_error"
    by (simp add: propose_lna_def)
  with pass upto show ?thesis by simp
qed

theorem propose_lna_zero_interval_refused_witness:
  "0 + 1 < length example_times \<and> 0 < n_cols example_stoich
   \<and> (\<exists>s. propose_lna_upto example_integ_zero example_chol example_randn example_times example_pars 1
            [True, False, False] example_stoich 0 = Inr s
         \<and> lna_drift (integrate_interval example_integ_zero example_times example_stoich 0 s) = [0]
         \<and> entry (lna_diffusion (integrate_interval example_integ_zero example_times example_stoich 0 s)) 0 0 = 0
         \<and> propose_lna_interval example_integ_zero example_chol example_times example_pars 1
              [True, False, False] example_stoich 0 s = Inl Runtime_error)
   \<and> propose_lna example_integ_zero example_chol example_randn example_times example_pars 1
        [True, False, False] example_stoich = Inl Runtime_error"
proof -
  from example_entry_zero obtain s :: proposer_state where
    s: "propose_lna_upto example_integ_zero example_chol example_randn example_times example_pars 1
      [True, False, False] example_stoich 0 = Inr s" and len: "length (lna_state_vec s) = 2" by blast
  have j: "0 + 1 < length example_times" by (simp add: example_times_def)
  have n: "0 < n_cols example_stoich" by (simp add: example_stoich_def)
  note e = integrate_interval_def Let_def len CALL_INTEGRATE_STEM_LNA_def symmatu_def
    mat_of_colmajor_def example_defs eval_nat_numeral
  have dr: "lna_drift (integrate_interval example_integ_zero example_times example_stoich 0 s) = [0]"
    by (simp add: e)
  have dr': "lna_drift (integrate_interval example_integ_zero example_times example_stoich 0 s)
           = replicate (n_cols example_stoich) 0"
    by (simp add: e)
  have df: "entry (lna_diffusion (integrate_interval example_integ_zero example_times example_stoich 0 s)) 0 0 = 0"
    by (simp add: e)
  have df': "\<forall>r c. r < n_cols example_stoich \<and> c < n_cols example_stoich \<longrightarrow>
           entry (lna_diffusion (integrate_interval example_integ_zero example_times example_stoich 0 s)) r c = 0"
    by (simp add: e)
  from propose_lna_zero_interval_refused[OF s j n dr' df' example_chol_refuses] s j n dr df
  show ?thesis by blast
qed

text \<open>
  C4 as stated fails on the same input: the drift and the diffusion of the first interval
  are zero, and the pass yields no zero increment but the runtime error, as does the call.
\<close>

theorem propose_lna_zero_interval_counterexample:
  "lna_drift (integrate_interval example_integ_zero example_times example_stoich 0 (projr
       (propose_lna_upto example_integ_zero example_chol example_randn example_times example_pars 1
          [True, False, False] example_stoich 0))) = [0]
   \<and> entry (lna_diffusion (integrate_interval example_integ_zero example_times example_stoich 0 (projr
       (propose_lna_upto example_integ_zero example_chol example_randn example_times example_pars 1
          [True, False, False] example_stoich 0)))) 0 0 = 0
   \<and> propose_lna_upto example_integ_zero example_chol example_randn example_times example_pars 1
        [True, False, False] example_stoich (Suc 0) = Inl Runtime_error
   \<and> propose_lna example_integ_zero example_chol example_randn example_times example_pars 1
        [True, False, False] example_stoich = Inl Runtime_error"
  by (simp add: model_defs example_defs eval_nat_numeral)

text \<open>
  C5. If \<open>chol\<close> fails on the symmetrised diffusion matrix of an interval of the time grid
  that the loop reaches, \<open>propose_lna\<close> returns no path: the call ends in the runtime error.
\<close>

theorem propose_lna_chol_failure:
  assumes "propose_lna_upto integ chol randn lna_times lna_pars init_start param_update_inds
             stoich_matrix j = Inr s"
    and "j + 1 < length lna_times"
    and "chol (lna_diffusion (integrate_interval integ lna_times stoich_matrix j s)) = None"
  shows "propose_lna integ chol randn lna_times lna_pars init_start param_update_inds stoich_matrix
           = Inl Runtime_error"
proof -
  have "propose_lna_interval integ chol lna_times lna_pars init_start param_update_inds
          stoich_matrix j s = Inl Runtime_error"
    using assms(3) by (simp add: propose_lna_interval_def Let_def forward_exception_to_r_def)
  then have "propose_lna_upto integ chol randn lna_times lna_pars init_start param_update_inds
               stoich_matrix (Suc j) = Inl Runtime_error"
    using assms(1) by (simp add: propose_lna_upto_Suc)
  moreover from assms(2) have "Suc j \<le> length lna_times - 1" by simp
  ultimately have "propose_lna_upto integ chol randn lna_times lna_pars init_start param_update_inds
               stoich_matrix (length lna_times - 1) = Inl Runtime_error"
    by (rule propose_lna_upto_failure)
  then show ?thesis by (simp add: propose_lna_def)
qed

theorem propose_lna_chol_failure_witness:
  "0 + 1 < length example_times
   \<and> (\<exists>s. propose_lna_upto example_integ_neg example_chol example_randn example_times example_pars 1
            [True, False, False] example_stoich 0 = Inr s
         \<and> entry (lna_diffusion (integrate_interval example_integ_neg example_times example_stoich 0 s)) 0 0 = - 1)
   \<and> propose_lna example_integ_neg example_chol example_randn example_times example_pars 1
        [True, False, False] example_stoich = Inl Runtime_error"
proof -
  from example_entry_neg obtain s :: proposer_state where
    s: "propose_lna_upto example_integ_neg example_chol example_randn example_times example_pars 1
      [True, False, False] example_stoich 0 = Inr s" and len: "length (lna_state_vec s) = 2" by blast
  have j: "0 + 1 < length example_times" by (simp add: example_times_def)
  have d: "entry (lna_diffusion (integrate_interval example_integ_neg example_times example_stoich 0 s)) 0 0 = - 1"
    by (simp add: integrate_interval_def Let_def len CALL_INTEGRATE_STEM_LNA_def symmatu_def
        mat_of_colmajor_def example_defs eval_nat_numeral)
  have c: "example_chol (lna_diffusion (integrate_interval example_integ_neg example_times example_stoich 0 s)) = None"
    using d by (simp add: example_chol_def)
  from propose_lna_chol_failure[OF s j c] s j d show ?thesis by blast
qed

text \<open>
  C8. Let no update flag beyond index 0 be set. After any number \<open>k\<close> of passes, every entry
  of the current parameters outside the volume columns is the entry of parameter row 0,
  the volume columns hold the compartment volumes, which after a pass are the freshly
  computed ones, and the vector has been pushed to the callback: \<open>k + 1\<close> vectors were
  pushed, the last of them the current parameters, which the integrator now holds.
\<close>

theorem propose_lna_params_not_reloaded:
  assumes "\<forall>i. 1 \<le> i \<and> i < length param_update_inds \<longrightarrow> \<not> param_update_inds ! i"
    and "propose_lna_upto integ chol randn lna_times lna_pars init_start param_update_inds
           stoich_matrix k = Inr s"
  shows "length (current_params s) = n_cols lna_pars
       \<and> (\<forall>i. i < n_cols lna_pars \<and> (i < nat init_start \<or> nat init_start + n_rows stoich_matrix \<le> i)
              \<longrightarrow> current_params s ! i = entry lna_pars 0 i)
       \<and> take (n_rows stoich_matrix) (drop (nat init_start) (current_params s)) = init_volumes s
       \<and> (0 < k \<longrightarrow> init_volumes s =
             clamp_neg (vec_add (take (n_rows stoich_matrix) (drop (nat init_start) (mat_row lna_pars 0)))
                          (mat_vec stoich_matrix (c_incid s))))
       \<and> length (set_pars_log s) = k + 1
       \<and> last (set_pars_log s) = current_params s
       \<and> ode_pars s = current_params s"
proof -
  note inv = proposer_inv_upto[OF assms(2)]
  have fresh: "init_volumes s =
             clamp_neg (vec_add (take (n_rows stoich_matrix) (drop (nat init_start) (mat_row lna_pars 0)))
                          (mat_vec stoich_matrix (c_incid s)))" if "0 < k"
  proof -
    from that obtain m where k: "k = Suc m" by (cases k) auto
    from propose_lna_upto_step[OF assms(2)[unfolded k]] obtain u where
      u: "propose_lna_upto integ chol randn lna_times lna_pars init_start param_update_inds
            stoich_matrix m = Inr u"
      and st: "propose_lna_interval integ chol lna_times lna_pars init_start param_update_inds
            stoich_matrix m u = Inr s" by blast
    show ?thesis
      using proposer_inv_upto[OF u] by (simp add: propose_lna_interval_Inr(8)[OF st] proposer_inv_def)
  qed
  show ?thesis
    using inv fresh propose_lna_unflagged_entries[OF assms]
    by (simp add: proposer_inv_def)
qed

theorem propose_lna_params_not_reloaded_witness:
  "\<exists>s. propose_lna_upto example_integ example_chol example_randn example_times example_pars 1
      [True, False, False] example_stoich 2 = Inr s
      \<and> current_params s ! 0 = 1 / 2
      \<and> take 2 (drop 1 (current_params s)) = init_volumes s
      \<and> length (set_pars_log s) = 3
      \<and> last (set_pars_log s) = current_params s"
proof -
  from example_two_passes obtain s :: proposer_state where
    run: "propose_lna_upto example_integ example_chol example_randn example_times example_pars 1
      [True, False, False] example_stoich 2 = Inr s" by blast
  have flags: "\<forall>i. 1 \<le> i \<and> i < length [True, False, False] \<longrightarrow> \<not> [True, False, False] ! i"
    by (auto simp: nth_Cons' less_Suc_eq)
  from propose_lna_params_not_reloaded[OF flags run] run show ?thesis
    by (auto simp: example_defs)
qed

section \<open>The density evaluator\<close>

text \<open>
  C6. The log-likelihood that \<open>lna_density2\<close> returns is the sum, over the rows \<open>j\<close> from 1
  to \<open>n_times - 1\<close>, of \<open>dmvtn\<close> at columns 1 to \<open>n_comps\<close> of row \<open>j\<close> of the residual path,
  with mean row \<open>j\<close> of the returned residual process and covariance slice \<open>j\<close> of the
  supplied diffusion process, which is returned as it was supplied. Row \<open>j\<close> of the returned
  residual process is the residual part of the state vector integrated in pass \<open>j\<close>.
\<close>

theorem lna_density2_log_lik:
  assumes "lna_density2 integ dmvtn path lna_times lna_pars param_update_inds flow_matrix = Inr out"
  shows "path_lna_log_lik out =
           sum_list (map (\<lambda>j. dmvtn (row_span (path_res_path path) j (n_rows flow_matrix))
                                (mat_row (path_residual out) j) (path_diffusion path ! j))
                      [1..<length lna_times])
       \<and> path_diffusion out = path_diffusion path
       \<and> (\<forall>j. 1 \<le> j \<and> j < length lna_times \<longrightarrow>
            (\<exists>s s'. lna_density2_upto integ dmvtn path lna_times lna_pars param_update_inds
                       flow_matrix (j - 1) = Inr s
                  \<and> lna_density2_upto integ dmvtn path lna_times lna_pars param_update_inds
                       flow_matrix j = Inr s'
                  \<and> mat_row (path_residual out) j =
                      take (n_rows flow_matrix) (drop (n_rows flow_matrix)
                        (CALL_INTEGRATE_STEM_LNA integ (ode_pars s') (lna_state_vec s)
                           (lna_times ! (j - 1)) (lna_times ! j) 1))))"
proof -
  from lna_density2_Inr[OF assms] obtain t where
    t: "lna_density2_upto integ dmvtn path lna_times lna_pars param_update_inds flow_matrix
          (length lna_times - 1) = Inr t"
    and r: "path_residual out = residual_process t"
    and l: "path_lna_log_lik out = lna_log_lik t"
    and d: "path_diffusion out = path_diffusion path" by auto
  have upt: "[1..<length lna_times - 1 + 1] = [1..<length lna_times]"
    by (cases lna_times) simp_all
  have "path_lna_log_lik out =
           sum_list (map (\<lambda>j. dmvtn (row_span (path_res_path path) j (n_rows flow_matrix))
                                (mat_row (path_residual out) j) (path_diffusion path ! j))
                      [1..<length lna_times - 1 + 1])"
    using evaluator_inv_upto[OF t] unfolding evaluator_inv_def r l by blast
  then show ?thesis
    unfolding upt using d lna_density2_rows[OF assms] by blast
qed

theorem lna_density2_log_lik_witness:
  "\<exists>out. lna_density2 example_integ_ess example_dmvtn example_path example_times example_pars
      [True, False, False] example_flow = Inr out
    \<and> mat_row (path_residual out) 1 = [1, 1]
    \<and> mat_row (path_residual out) 2 = [12, 13]
    \<and> path_lna_log_lik out = - (221 / 2) + - 81"
proof -
  from example_density_run obtain out where
    run: "lna_density2 example_integ_ess example_dmvtn example_path example_times example_pars
      [True, False, False] example_flow = Inr out" by blast
  have r1: "mat_row (path_residual out) (Suc 0) = [1, 1]" and r2: "mat_row (path_residual out) 2 = [12, 13]"
    using run by (auto simp: evaluator_defs example_eval_defs eval_nat_numeral)
  from lna_density2_log_lik[OF run] have
    "path_lna_log_lik out =
           sum_list (map (\<lambda>j. example_dmvtn (row_span (path_res_path example_path) j (n_rows example_flow))
                                (mat_row (path_residual out) j) (path_diffusion example_path ! j))
                      [1..<length example_times])"
    by blast
  also have "[1..<length example_times] = [1, 2]"
    by (simp add: example_times_def upt_conv_Cons)
  finally have "path_lna_log_lik out = - (221 / 2) + - 81"
    by (simp add: r1 r2 example_eval_defs row_span_def upt_conv_Cons power2_eq_square)
  with run r1 r2 show ?thesis by auto
qed

text \<open>
  C7. \<open>lna_density2\<close> returns the path, the residual path, the drift process, the diffusion
  process and the data log-likelihood of the bundle it was given. The residual process
  keeps its extents, its row 0 and its rows from \<open>n_times\<close> on; each row \<open>j\<close> from 1 to
  \<open>n_times - 1\<close> is the residual part of the state vector integrated in pass \<open>j\<close>.
\<close>

theorem lna_density2_frame:
  assumes "lna_density2 integ dmvtn path lna_times lna_pars param_update_inds flow_matrix = Inr out"
  shows "path_lna_path out = path_lna_path path
       \<and> path_res_path out = path_res_path path
       \<and> path_drift out = path_drift path
       \<and> path_diffusion out = path_diffusion path
       \<and> path_data_log_lik out = path_data_log_lik path
       \<and> n_rows (path_residual out) = n_rows (path_residual path)
       \<and> n_cols (path_residual out) = n_cols (path_residual path)
       \<and> (\<forall>r c. r = 0 \<or> length lna_times \<le> r \<or> n_cols (path_residual path) \<le> c \<longrightarrow>
              entry (path_residual out) r c = entry (path_residual path) r c)
       \<and> (\<forall>j. 1 \<le> j \<and> j < length lna_times \<longrightarrow>
            (\<exists>s s'. lna_density2_upto integ dmvtn path lna_times lna_pars param_update_inds
                       flow_matrix (j - 1) = Inr s
                  \<and> lna_density2_upto integ dmvtn path lna_times lna_pars param_update_inds
                       flow_matrix j = Inr s'
                  \<and> mat_row (path_residual out) j =
                      take (n_rows flow_matrix) (drop (n_rows flow_matrix)
                        (CALL_INTEGRATE_STEM_LNA integ (ode_pars s') (lna_state_vec s)
                           (lna_times ! (j - 1)) (lna_times ! j) 1))))"
proof -
  from lna_density2_Inr[OF assms] obtain t where
    t: "lna_density2_upto integ dmvtn path lna_times lna_pars param_update_inds flow_matrix
          (length lna_times - 1) = Inr t"
    and r: "path_residual out = residual_process t"
    and p: "path_lna_path out = lna_path t"
    and rest: "path_res_path out = path_res_path path" "path_drift out = path_drift path"
      "path_diffusion out = path_diffusion path" "path_data_log_lik out = path_data_log_lik path"
    by auto
  note inv = evaluator_inv_upto[OF t]
  have 1: "path_lna_path out = path_lna_path path"
    using inv by (simp add: p evaluator_inv_def)
  have 2: "n_rows (path_residual out) = n_rows (path_residual path)
         \<and> n_cols (path_residual out) = n_cols (path_residual path)"
    using inv by (simp add: r evaluator_inv_def)
  have fr: "\<forall>r c. r = 0 \<or> length lna_times - 1 < r \<or> n_cols (path_residual path) \<le> c \<longrightarrow>
              entry (path_residual out) r c = entry (path_residual path) r c"
    using inv unfolding r evaluator_inv_def by blast
  have 3: "entry (path_residual out) r c = entry (path_residual path) r c"
    if "r = 0 \<or> length lna_times \<le> r \<or> n_cols (path_residual path) \<le> c" for r c
  proof -
    from that have "r = 0 \<or> length lna_times - 1 < r \<or> n_cols (path_residual path) \<le> c"
      by arith
    with fr show ?thesis by blast
  qed
  show ?thesis
    using 1 2 3 rest lna_density2_rows[OF assms] by blast
qed

theorem lna_density2_frame_witness:
  "\<exists>out. lna_density2 example_integ_ess example_dmvtn example_path example_times example_pars
      [True, False, False] example_flow = Inr out
    \<and> path_lna_path out = path_lna_path example_path
    \<and> path_res_path out = path_res_path example_path
    \<and> path_data_log_lik out = - 5
    \<and> mat_row (path_residual out) 0 = [100, 100]"
proof -
  from example_density_run obtain out where
    run: "lna_density2 example_integ_ess example_dmvtn example_path example_times example_pars
      [True, False, False] example_flow = Inr out" by blast
  from lna_density2_frame[OF run] have
    f: "path_lna_path out = path_lna_path example_path" "path_res_path out = path_res_path example_path"
      "path_data_log_lik out = path_data_log_lik example_path"
      "n_cols (path_residual out) = n_cols (path_residual example_path)"
    and e: "\<forall>r c. r = 0 \<or> length example_times \<le> r \<or> n_cols (path_residual example_path) \<le> c \<longrightarrow>
              entry (path_residual out) r c = entry (path_residual example_path) r c"
    by blast+
  have "mat_row (path_residual out) 0 = [100, 100]"
    using e by (simp add: mat_row_def f(4) example_path_def upt_conv_Cons)
  moreover have "path_data_log_lik out = - 5"
    by (simp add: f(3) example_path_def)
  ultimately show ?thesis using run f(1,2) by blast
qed

text \<open>
  C10. The state vector is all zero when the loop is entered. For a pass \<open>j\<close> of at least 2,
  with \<open>s0\<close>, \<open>s1\<close> and \<open>s2\<close> the locals after the passes \<open>j - 2\<close>, \<open>j - 1\<close> and \<open>j\<close>: the
  vector that pass \<open>j - 1\<close> leaves has, in its first \<open>n_comps\<close> entries, the drift that pass
  \<open>j - 1\<close> integrated, and in the rest columns 1 to \<open>n_comps\<close> of row \<open>j - 1\<close> of the residual
  path; pass \<open>j\<close> integrates from that vector, without resetting it.
\<close>

theorem lna_density2_state_vec_carried:
  assumes "2 \<le> j"
    and "lna_density2_upto integ dmvtn path lna_times lna_pars param_update_inds flow_matrix (j - 2) = Inr s0"
    and "lna_density2_upto integ dmvtn path lna_times lna_pars param_update_inds flow_matrix (j - 1) = Inr s1"
    and "lna_density2_upto integ dmvtn path lna_times lna_pars param_update_inds flow_matrix j = Inr s2"
  shows "(\<exists>si. lna_density2_upto integ dmvtn path lna_times lna_pars param_update_inds flow_matrix 0 = Inr si
             \<and> lna_state_vec si = replicate (2 * n_rows flow_matrix) 0)
       \<and> length (lna_state_vec s1) = 2 * n_rows flow_matrix
       \<and> take (n_rows flow_matrix) (lna_state_vec s1) =
           take (n_rows flow_matrix)
             (CALL_INTEGRATE_STEM_LNA integ (ode_pars s1) (lna_state_vec s0)
                (lna_times ! (j - 2)) (lna_times ! (j - 1)) 1)
       \<and> drop (n_rows flow_matrix) (lna_state_vec s1) =
           row_span (path_res_path path) (j - 1) (n_rows flow_matrix)
       \<and> mat_row (residual_process s2) j =
           take (n_rows flow_matrix) (drop (n_rows flow_matrix)
             (CALL_INTEGRATE_STEM_LNA integ (ode_pars s2) (lna_state_vec s1)
                (lna_times ! (j - 1)) (lna_times ! j) 1))"
proof -
  let ?n = "n_rows flow_matrix"
  from assms(1) obtain k where k: "j = Suc (Suc k)"
    by (metis Suc_le_D numeral_2_eq_2 Suc_le_mono)
  have st1: "lna_density2_interval integ dmvtn path lna_times lna_pars param_update_inds
               flow_matrix (Suc k) s0 = Inr s1"
    using assms(2,3) by (simp add: k lna_density2_upto_Suc)
  have st2: "lna_density2_interval integ dmvtn path lna_times lna_pars param_update_inds
               flow_matrix (Suc (Suc k)) s1 = Inr s2"
    using assms(3,4) by (simp add: k lna_density2_upto_Suc)
  note f1 = lna_density2_interval_Inr[OF st1]
  note f2 = lna_density2_interval_Inr[OF st2]
  let ?B1 = "CALL_INTEGRATE_STEM_LNA integ (ode_pars s1) (lna_state_vec s0)
               (lna_times ! (Suc k - 1)) (lna_times ! Suc k) 1"
  let ?B2 = "CALL_INTEGRATE_STEM_LNA integ (ode_pars s2) (lna_state_vec s1)
               (lna_times ! (Suc (Suc k) - 1)) (lna_times ! Suc (Suc k)) 1"
  from lna_density2_upto_prefix[OF assms(2), of 0] obtain si where
    si: "lna_density2_upto integ dmvtn path lna_times lna_pars param_update_inds flow_matrix 0 = Inr si"
    by auto
  then have "lna_density2_init path lna_pars flow_matrix = Inr si"
    by (simp add: lna_density2_upto_0)
  from lna_density2_init_Inr[OF this] have zero: "lna_state_vec si = replicate (2 * ?n) 0"
    by simp
  have lb1: "length ?B1 = 2 * ?n"
    using evaluator_inv_upto[OF assms(2)] by (simp add: evaluator_inv_def)
  have len1: "length (lna_state_vec s1) = 2 * ?n"
    using evaluator_inv_upto[OF assms(3)] by (simp add: evaluator_inv_def)
  have tk: "take ?n (lna_state_vec s1) = take ?n ?B1"
    using lb1 by (simp add: f1(14) copy_into_def)
  have dr: "drop ?n (lna_state_vec s1) = row_span (path_res_path path) (Suc k) ?n"
    using lb1 by (simp add: f1(14) copy_into_def)
  have "length ?B2 = 2 * ?n" using len1 by simp
  then have "length (take ?n (drop ?n ?B2)) = n_cols (residual_process s1)"
    by (simp add: f2(5))
  then have row: "mat_row (residual_process s2) (Suc (Suc k)) = take ?n (drop ?n ?B2)"
    unfolding f2(12) by (rule mat_row_set_row_same)
  show ?thesis
    using si zero len1 tk dr row by (simp add: k)
qed

theorem lna_density2_state_vec_carried_witness:
  "\<exists>s0 s1 s2.
      lna_density2_upto example_integ_ess example_dmvtn example_path example_times example_pars
        [True, False, False] example_flow (2 - 2) = Inr s0
    \<and> lna_density2_upto example_integ_ess example_dmvtn example_path example_times example_pars
        [True, False, False] example_flow (2 - 1) = Inr s1
    \<and> lna_density2_upto example_integ_ess example_dmvtn example_path example_times example_pars
        [True, False, False] example_flow 2 = Inr s2
    \<and> lna_state_vec s0 = [0, 0, 0, 0]
    \<and> lna_state_vec s1 = [1, 1, 11, 12]
    \<and> mat_row (residual_process s2) 2 = [12, 13]"
proof -
  from example_density_passes obtain s0 s1 s2 :: evaluator_state where
    s0: "lna_density2_upto example_integ_ess example_dmvtn example_path example_times example_pars
        [True, False, False] example_flow (2 - 2) = Inr s0"
    and s1: "lna_density2_upto example_integ_ess example_dmvtn example_path example_times example_pars
        [True, False, False] example_flow (2 - 1) = Inr s1"
    and s2: "lna_density2_upto example_integ_ess example_dmvtn example_path example_times example_pars
        [True, False, False] example_flow 2 = Inr s2"
    and v0: "lna_state_vec s0 = [0, 0, 0, 0]"
    and v1: "lna_state_vec s1 = [1, 1, 11, 12]" by blast
  have j: "(2::nat) \<le> 2" by simp
  from lna_density2_state_vec_carried[OF j s0 s1 s2] have
    "mat_row (residual_process s2) 2 =
           take (n_rows example_flow) (drop (n_rows example_flow)
             (CALL_INTEGRATE_STEM_LNA example_integ_ess (ode_pars s2) (lna_state_vec s1)
                (example_times ! (2 - 1)) (example_times ! 2) 1))"
    by blast
  then have "mat_row (residual_process s2) 2 = [12, 13]"
    by (simp add: v1 CALL_INTEGRATE_STEM_LNA_def example_eval_defs upt_conv_Cons)
  with s0 s1 s2 v0 v1 show ?thesis by blast
qed

section \<open>The parameter table writer\<close>

text \<open>
  C9, as amended. For a parameter vector that is not empty and no longer than the table
  is wide, \<open>pars2lnapars\<close> completes; the table keeps its extents, every row holds the
  vector in its first \<open>length parameters\<close> columns, and every other entry is the one it had.
\<close>

theorem pars2lnapars_overwrites:
  assumes "0 < length parameters" and "length parameters \<le> n_cols lnapars"
  shows "\<exists>M. pars2lnapars lnapars parameters = Inr M
           \<and> n_rows M = n_rows lnapars \<and> n_cols M = n_cols lnapars
           \<and> (\<forall>r c. r < n_rows lnapars \<longrightarrow>
                  entry M r c = (if c < length parameters then parameters ! c else entry lnapars r c))
           \<and> (\<forall>r c. n_rows lnapars \<le> r \<longrightarrow> entry M r c = entry lnapars r c)"
  using assms by (cases parameters) (auto simp: pars2lnapars_def Let_def)

theorem pars2lnapars_overwrites_witness:
  "0 < length [7, 8 :: real] \<and> length [7, 8 :: real] \<le> n_cols example_table
   \<and> (\<exists>M. pars2lnapars example_table [7, 8] = Inr M
          \<and> mat_row M 0 = [7, 8, 2] \<and> mat_row M 1 = [7, 8, 12])"
proof -
  have h1: "0 < length [7, 8 :: real]" by simp
  have h2: "length [7, 8 :: real] \<le> n_cols example_table" by (simp add: example_table_def)
  from pars2lnapars_overwrites [OF h1 h2] obtain M where
    M: "pars2lnapars example_table [7, 8] = Inr M" "n_cols M = n_cols example_table"
    and E: "\<forall>r c. r < n_rows example_table \<longrightarrow>
                  entry M r c = (if c < length [7, 8 :: real] then [7, 8] ! c else entry example_table r c)"
    by blast
  have "mat_row M 0 = [7, 8, 2]" "mat_row M 1 = [7, 8, 12]"
    using M(2) E by (simp_all add: mat_row_def example_table_def upt_conv_Cons)
  with h1 h2 M(1) show ?thesis by blast
qed

text \<open>
  C9 as stated fails for the empty parameter vector, whose length does not exceed the
  column count: the call ends in Armadillo's bounds error instead of returning.
\<close>

theorem pars2lnapars_empty_counterexample:
  "length ([] :: real list) \<le> n_cols example_table
   \<and> pars2lnapars example_table [] = Inl Logic_error"
  by (simp add: pars2lnapars_def example_table_def)

end
